theory Spec2Isabelle
  imports Main "HOL-Library.AList"
begin

section \<open>Python values, exceptions and text\<close>

text \<open>
  The program is \<^verbatim>\<open>src/reddit_fetch/generate_tokens.py\<close>. A Python \<^verbatim>\<open>str\<close> is held as a
  \<^typ>\<open>string\<close>: the UTF-8 encoding of its code points, one \<^typ>\<open>char\<close> per byte. The values
  that \<^verbatim>\<open>json.load\<close> and \<^verbatim>\<open>response.json()\<close> return are the datatype \<open>json\<close>; a
  \<^verbatim>\<open>dict\<close> is an association list in insertion order with distinct keys. A float is
  held as its decimal text: floating-point arithmetic is outside this development, and
  the one place where Python renders a float (\<^verbatim>\<open>json.dump\<close>) takes the rendering as a
  parameter of the environment.
\<close>

datatype json =
    JNull
  | JBool bool
  | JInt int
  | JFloat string
  | JStr string
  | JArr "json list"
  | JObj "(string \<times> json) list"

text \<open>
  The exceptions that the program can meet. \<open>JSONDecodeError\<close>, \<open>UnicodeDecodeError\<close>
  and \<open>UnicodeEncodeError\<close> are subclasses of \<open>ValueError\<close>; \<open>RequestException\<close> stands for
  every failure that \<^verbatim>\<open>requests.post\<close> raises.
\<close>

datatype py_error =
    JSONDecodeError
  | UnicodeDecodeError
  | UnicodeEncodeError
  | ValueError
  | TypeError
  | KeyError string
  | IndexError
  | AttributeError
  | RequestException

fun is_ValueError :: "py_error \<Rightarrow> bool" where
  "is_ValueError JSONDecodeError = True"
| "is_ValueError UnicodeDecodeError = True"
| "is_ValueError UnicodeEncodeError = True"
| "is_ValueError ValueError = True"
| "is_ValueError _ = False"

definition code_of :: "char \<Rightarrow> nat" where
  "code_of c = of_char c"

definition is_digit :: "char \<Rightarrow> bool" where
  "is_digit c = (48 \<le> code_of c \<and> code_of c \<le> 57)"

definition digit_val :: "char \<Rightarrow> nat" where
  "digit_val c = code_of c - 48"

definition hexval :: "char \<Rightarrow> nat option" where
  "hexval c =
     (let n = code_of c in
      if 48 \<le> n \<and> n \<le> 57 then Some (n - 48)
      else if 65 \<le> n \<and> n \<le> 70 then Some (n - 55)
      else if 97 \<le> n \<and> n \<le> 102 then Some (n - 87)
      else None)"

text \<open>The decimal numeral of a digit string, most significant digit first.\<close>

definition dec_val :: "string \<Rightarrow> int" where
  "dec_val ds = foldl (\<lambda>n d. 10 * n + int (digit_val d)) 0 ds"

subsection \<open>UTF-8\<close>

text \<open>
  \<open>utf8_encode\<close> is the encoding of one code point. A surrogate code point (which a
  Python \<^verbatim>\<open>str\<close> can hold, after \<^verbatim>\<open>json.loads('"\ud800"')\<close>) takes the three-byte form
  too.
\<close>

definition utf8_encode :: "nat \<Rightarrow> string" where
  "utf8_encode cp =
     (if cp < 0x80 then [char_of cp]
      else if cp < 0x800 then [char_of (0xC0 + cp div 64), char_of (0x80 + cp mod 64)]
      else if cp < 0x10000 then
        [char_of (0xE0 + cp div 4096), char_of (0x80 + cp div 64 mod 64),
         char_of (0x80 + cp mod 64)]
      else
        [char_of (0xF0 + cp div 262144), char_of (0x80 + cp div 4096 mod 64),
         char_of (0x80 + cp div 64 mod 64), char_of (0x80 + cp mod 64)])"

definition is_cont :: "char \<Rightarrow> bool" where
  "is_cont c = (0x80 \<le> code_of c \<and> code_of c \<le> 0xBF)"

text \<open>
  \<open>utf8_next surr s\<close> reads the front of a non-empty byte string: \<open>(Some cp, n)\<close> when
  its first \<open>n\<close> bytes are the well-formed encoding of \<open>cp\<close>, and \<open>(None, n)\<close> when its
  first \<open>n\<close> bytes are an ill-formed sequence that CPython's decoder reports as one error
  (the longest prefix of a well-formed sequence, at least one byte). With \<open>surr\<close> the
  three-byte form of a surrogate is read as well-formed.
\<close>

fun utf8_next :: "bool \<Rightarrow> string \<Rightarrow> nat option \<times> nat" where
  "utf8_next surr [] = (None, 1)"
| "utf8_next surr (a # s) =
     (let n = code_of a in
      if n < 0x80 then (Some n, 1)
      else if 0xC2 \<le> n \<and> n \<le> 0xDF then
        (case s of
           b # _ \<Rightarrow> if is_cont b then (Some ((n - 0xC0) * 64 + (code_of b - 0x80)), 2)
                    else (None, 1)
         | [] \<Rightarrow> (None, 1))
      else if 0xE0 \<le> n \<and> n \<le> 0xEF then
        (case s of
           b # s' \<Rightarrow>
             if is_cont b \<and> (n = 0xE0 \<longrightarrow> 0xA0 \<le> code_of b)
                \<and> (n = 0xED \<and> \<not> surr \<longrightarrow> code_of b \<le> 0x9F) then
               (case s' of
                  c # _ \<Rightarrow>
                    if is_cont c then
                      (Some ((n - 0xE0) * 4096 + (code_of b - 0x80) * 64 + (code_of c - 0x80)), 3)
                    else (None, 2)
                | [] \<Rightarrow> (None, 2))
             else (None, 1)
         | [] \<Rightarrow> (None, 1))
      else if 0xF0 \<le> n \<and> n \<le> 0xF4 then
        (case s of
           b # s' \<Rightarrow>
             if is_cont b \<and> (n = 0xF0 \<longrightarrow> 0x90 \<le> code_of b)
                \<and> (n = 0xF4 \<longrightarrow> code_of b \<le> 0x8F) then
               (case s' of
                  c # s'' \<Rightarrow>
                    if is_cont c then
                      (case s'' of
                         d # _ \<Rightarrow>
                           if is_cont d then
                             (Some ((n - 0xF0) * 262144 + (code_of b - 0x80) * 4096
                                    + (code_of c - 0x80) * 64 + (code_of d - 0x80)), 4)
                           else (None, 3)
                       | [] \<Rightarrow> (None, 3))
                    else (None, 2)
                | [] \<Rightarrow> (None, 2))
             else (None, 1)
         | [] \<Rightarrow> (None, 1))
      else (None, 1))"

lemma utf8_next_pos: "0 < snd (utf8_next surr s)"
  by (cases s) (auto simp: Let_def split: list.splits)

declare utf8_next.simps [simp del]

lemma utf8_next_drop [termination_simp]:
  assumes "(r, n) = utf8_next surr (a # s)"
  shows "Suc (length s) - n < Suc (length s)"
proof -
  have "0 < n" using utf8_next_pos [of surr "a # s"] assms [symmetric] by simp
  then show ?thesis by simp
qed

lemma utf8_next_drop' [termination_simp]:
  assumes "(r, n) = utf8_next surr (a # s)"
  shows "length s - (n - Suc 0) < Suc (length s)"
  using utf8_next_drop [OF assms] by simp

text \<open>The code points of a text, \<open>None\<close> where it is not well-formed.\<close>

fun utf8_decode :: "bool \<Rightarrow> string \<Rightarrow> nat list option" where
  "utf8_decode surr [] = Some []"
| "utf8_decode surr (a # s) =
     (case utf8_next surr (a # s) of
        (None, n) \<Rightarrow> None
      | (Some cp, n) \<Rightarrow> map_option ((#) cp) (utf8_decode surr (drop n (a # s))))"

text \<open>
  \<^verbatim>\<open>bytes.decode('utf-8', errors='replace')\<close>, encoded again: every ill-formed sequence
  becomes U+FFFD.
\<close>

fun utf8_replace :: "string \<Rightarrow> string" where
  "utf8_replace [] = []"
| "utf8_replace (a # s) =
     (case utf8_next False (a # s) of
        (None, n) \<Rightarrow> utf8_encode 0xFFFD @ utf8_replace (drop n (a # s))
      | (Some cp, n) \<Rightarrow> take n (a # s) @ utf8_replace (drop n (a # s)))"

section \<open>The JSON decoder: \<^verbatim>\<open>json.loads\<close>\<close>

text \<open>
  The decoder of CPython's \<^verbatim>\<open>json\<close> module in its default configuration
  (\<^verbatim>\<open>strict=True\<close>, the constants \<^verbatim>\<open>NaN\<close>, \<^verbatim>\<open>Infinity\<close> and \<^verbatim>\<open>-Infinity\<close> accepted), as a
  lexer followed by a stack machine over the tokens. Every failure of the decoder is
  the one exception \<open>JSONDecodeError\<close>, so only the accepted language and the value
  matter, not the position of the error. Not covered: the \<^verbatim>\<open>RecursionError\<close> of a very
  deeply nested document and the digit limit of \<^verbatim>\<open>int\<close> (Python 3.11).
\<close>

datatype token = TLBrace | TRBrace | TLBrack | TRBrack | TColon | TComma | TVal json

text \<open>The character after a backslash (\<^verbatim>\<open>BACKSLASH\<close> in \<^verbatim>\<open>json/decoder.py\<close>).\<close>

definition backslash :: "char \<Rightarrow> char option" where
  "backslash e =
     (if e = CHR 0x22 then Some (CHR 0x22)
      else if e = CHR 0x5C then Some (CHR 0x5C)
      else if e = CHR ''/'' then Some (CHR ''/'')
      else if e = CHR ''b'' then Some (CHR 0x08)
      else if e = CHR ''f'' then Some (CHR 0x0C)
      else if e = CHR ''n'' then Some (CHR 0x0A)
      else if e = CHR ''r'' then Some (CHR 0x0D)
      else if e = CHR ''t'' then Some (CHR 0x09)
      else None)"

text \<open>Four hexadecimal digits at the front of the text.\<close>

fun uXXXX :: "string \<Rightarrow> nat option" where
  "uXXXX (a # b # c # d # _) =
     (case (hexval a, hexval b, hexval c, hexval d) of
        (Some h1, Some h2, Some h3, Some h4) \<Rightarrow> Some (h1 * 4096 + h2 * 256 + h3 * 16 + h4)
      | _ \<Rightarrow> None)"
| "uXXXX _ = None"

text \<open>
  \<open>scanstring s acc\<close> reads a string literal after its opening quote: the text of the
  string and the rest of the input. A high surrogate followed by the escape of a low
  surrogate is one code point; any other surrogate stands alone.
\<close>

fun scanstring :: "string \<Rightarrow> string \<Rightarrow> (string \<times> string) option" where
  "scanstring [] acc = None"
| "scanstring (c # cs) acc =
     (if c = CHR 0x22 then Some (acc, cs)
      else if c = CHR 0x5C then
        (case cs of
           [] \<Rightarrow> None
         | e # es \<Rightarrow>
             if e = CHR ''u'' then
               (case uXXXX es of
                  None \<Rightarrow> None
                | Some uni \<Rightarrow>
                    (case (if 0xD800 \<le> uni \<and> uni \<le> 0xDBFF \<and> take 2 (drop 4 es) = [CHR 0x5C, CHR ''u'']
                           then uXXXX (drop 6 es) else None) of
                       Some uni2 \<Rightarrow>
                         if 0xDC00 \<le> uni2 \<and> uni2 \<le> 0xDFFF then
                           scanstring (drop 10 es)
                             (acc @ utf8_encode (0x10000 + (uni - 0xD800) * 1024 + (uni2 - 0xDC00)))
                         else scanstring (drop 4 es) (acc @ utf8_encode uni)
                     | None \<Rightarrow> scanstring (drop 4 es) (acc @ utf8_encode uni)))
             else
               (case backslash e of
                  None \<Rightarrow> None
                | Some d \<Rightarrow> scanstring es (acc @ [d])))
      else if code_of c < 0x20 then None
      else scanstring cs (acc @ [c]))"

lemma scanstring_length:
  "scanstring s acc = Some (r, rest) \<Longrightarrow> length rest < length s"
proof (induction s acc rule: scanstring.induct)
  case (1 acc)
  then show ?case by simp
next
  case (2 c cs acc)
  show ?case
  proof (cases "c = CHR 0x22")
    case True
    with "2.prems" show ?thesis by simp
  next
    case quote: False
    show ?thesis
    proof (cases "c = CHR 0x5C")
      case False
      with quote "2.prems" "2.IH"(5) show ?thesis
        by (auto split: if_splits)
    next
      case bs: True
      show ?thesis
      proof (cases cs)
        case Nil
        with quote bs "2.prems" show ?thesis by simp
      next
        case (Cons e es)
        show ?thesis
        proof (cases "e = CHR ''u''")
          case False
          with quote bs Cons "2.prems" "2.IH"(4) [OF quote bs Cons] show ?thesis
            by (auto split: option.splits)
        next
          case u: True
          from quote bs Cons u "2.prems" obtain uni where uni: "uXXXX es = Some uni"
            by (auto split: option.splits)
          let ?pair = "if 0xD800 \<le> uni \<and> uni \<le> 0xDBFF \<and> take 2 (drop 4 es) = [CHR 0x5C, CHR ''u'']
                       then uXXXX (drop 6 es) else None"
          from quote bs Cons u uni "2.prems" "2.IH"(1) [OF quote bs Cons u uni]
               "2.IH"(2) [OF quote bs Cons u uni] "2.IH"(3) [OF quote bs Cons u uni]
          have "length rest < length (drop 4 es) \<or> length rest < length (drop 10 es)"
            by (cases ?pair) (auto split: if_splits)
          with Cons show ?thesis by auto
        qed
      qed
    qed
  qed
qed

text \<open>
  A number (\<^verbatim>\<open>NUMBER_RE\<close>): an optional sign, \<^verbatim>\<open>0\<close> or a digit string that does not start
  with \<^verbatim>\<open>0\<close>, an optional fraction and an optional exponent. Without fraction and exponent
  it is an \<^verbatim>\<open>int\<close>, otherwise a \<^verbatim>\<open>float\<close>.
\<close>

definition scan_sign :: "string \<Rightarrow> string" where
  "scan_sign s = (if take 1 s = ''-'' then ''-'' else [])"

definition scan_int :: "string \<Rightarrow> string" where
  "scan_int s = (if take 1 s = ''0'' then ''0'' else takeWhile is_digit s)"

definition scan_frac :: "string \<Rightarrow> string" where
  "scan_frac s =
     (if take 1 s = ''.'' \<and> takeWhile is_digit (drop 1 s) \<noteq> []
      then ''.'' @ takeWhile is_digit (drop 1 s) else [])"

definition scan_exp :: "string \<Rightarrow> string" where
  "scan_exp s =
     (let esign = (if take 1 (drop 1 s) = ''-'' \<or> take 1 (drop 1 s) = ''+''
                   then take 1 (drop 1 s) else []);
          edigits = takeWhile is_digit (drop (1 + length esign) s)
      in if (take 1 s = ''e'' \<or> take 1 s = ''E'') \<and> edigits \<noteq> []
         then take 1 s @ esign @ edigits else [])"

definition number_parts :: "string \<Rightarrow> string \<times> string \<times> string \<times> string" where
  "number_parts s =
     (let sign = scan_sign s;
          s1 = drop (length sign) s;
          intpart = scan_int s1;
          s2 = drop (length intpart) s1;
          frac = scan_frac s2;
          s3 = drop (length frac) s2;
          exp = scan_exp s3
      in (sign, intpart, frac, exp))"

definition scan_number :: "string \<Rightarrow> (json \<times> string) option" where
  "scan_number s =
     (case number_parts s of
        (sign, intpart, frac, exp) \<Rightarrow>
          if intpart = [] then None
          else Some
            (if frac = [] \<and> exp = [] then
               JInt (if sign = [] then dec_val intpart else - dec_val intpart)
             else JFloat (sign @ intpart @ frac @ exp),
             drop (length (sign @ intpart @ frac @ exp)) s))"

lemma number_parts_Nil: "fst (snd (number_parts [])) = []"
  by (simp add: number_parts_def scan_sign_def scan_int_def Let_def)

lemma scan_number_length:
  assumes "scan_number s = Some (v, rest)"
  shows "length rest < length s"
proof -
  obtain sign intpart frac exp where p: "number_parts s = (sign, intpart, frac, exp)"
    by (cases "number_parts s") auto
  with assms have i: "intpart \<noteq> []"
    and r: "rest = drop (length (sign @ intpart @ frac @ exp)) s"
    by (auto simp: scan_number_def split: if_splits)
  from i p number_parts_Nil have "s \<noteq> []" by auto
  with i r show ?thesis by (cases intpart; cases s) auto
qed

definition is_json_ws :: "char \<Rightarrow> bool" where
  "is_json_ws c = (c = CHR '' '' \<or> c = CHR 0x09 \<or> c = CHR 0x0A \<or> c = CHR 0x0D)"

text \<open>
  The constants of \<^verbatim>\<open>scan_once\<close>, tried in its order, then a number.
\<close>

definition scan_literal :: "string \<Rightarrow> (json \<times> string) option" where
  "scan_literal s =
     (if take 4 s = ''null'' then Some (JNull, drop 4 s)
      else if take 4 s = ''true'' then Some (JBool True, drop 4 s)
      else if take 5 s = ''false'' then Some (JBool False, drop 5 s)
      else (case scan_number s of
              Some r \<Rightarrow> Some r
            | None \<Rightarrow>
                if take 3 s = ''NaN'' then Some (JFloat ''NaN'', drop 3 s)
                else if take 8 s = ''Infinity'' then Some (JFloat ''Infinity'', drop 8 s)
                else if take 9 s = ''-Infinity'' then Some (JFloat ''-Infinity'', drop 9 s)
                else None))"

lemma scan_literal_length:
  "scan_literal s = Some (v, rest) \<Longrightarrow> length rest < length s"
  by (cases s) (auto simp: scan_literal_def split: if_splits option.splits dest: scan_number_length)

lemma scan_literal_Cons [termination_simp]:
  "scan_literal (c # cs) = Some (v, rest) \<Longrightarrow> length rest < Suc (length cs)"
  using scan_literal_length [of "c # cs" v rest] by simp

declare scanstring_length [termination_simp]

fun lex :: "string \<Rightarrow> token list option" where
  "lex [] = Some []"
| "lex (c # cs) =
     (if is_json_ws c then lex cs
      else if c = CHR ''{'' then map_option ((#) TLBrace) (lex cs)
      else if c = CHR ''}'' then map_option ((#) TRBrace) (lex cs)
      else if c = CHR ''['' then map_option ((#) TLBrack) (lex cs)
      else if c = CHR '']'' then map_option ((#) TRBrack) (lex cs)
      else if c = CHR '':'' then map_option ((#) TColon) (lex cs)
      else if c = CHR '','' then map_option ((#) TComma) (lex cs)
      else if c = CHR 0x22 then
        (case scanstring cs [] of
           None \<Rightarrow> None
         | Some (str, rest) \<Rightarrow> map_option ((#) (TVal (JStr str))) (lex rest))
      else
        (case scan_literal (c # cs) of
           None \<Rightarrow> None
         | Some (v, rest) \<Rightarrow> map_option ((#) (TVal v)) (lex rest)))"

text \<open>
  The stack machine. A frame is a container that is open around the current position:
  the elements of an array read so far, or the members of an object read so far with
  the key whose value is being read. A \<^verbatim>\<open>dict\<close> keeps the first position of a repeated
  key and its last value (\<open>AList.update\<close>).
\<close>

datatype frame = FArr "json list" | FObj "(string \<times> json) list" string

datatype pstate =
    PVal "frame list"
  | PArrFirst "frame list"
  | PArrNext "json list" "frame list"
  | PObjFirst "frame list"
  | PKey "(string \<times> json) list" "frame list"
  | PColon "(string \<times> json) list" string "frame list"
  | PObjNext "(string \<times> json) list" "frame list"
  | PDone json

fun complete :: "json \<Rightarrow> frame list \<Rightarrow> pstate" where
  "complete v [] = PDone v"
| "complete v (FArr items # fs) = PArrNext (items @ [v]) fs"
| "complete v (FObj d k # fs) = PObjNext (AList.update k v d) fs"

fun start_value :: "frame list \<Rightarrow> token \<Rightarrow> pstate option" where
  "start_value fs (TVal v) = Some (complete v fs)"
| "start_value fs TLBrack = Some (PArrFirst fs)"
| "start_value fs TLBrace = Some (PObjFirst fs)"
| "start_value fs _ = None"

fun pstep :: "pstate \<Rightarrow> token \<Rightarrow> pstate option" where
  "pstep (PVal fs) t = start_value fs t"
| "pstep (PArrFirst fs) t =
     (if t = TRBrack then Some (complete (JArr []) fs) else start_value (FArr [] # fs) t)"
| "pstep (PArrNext items fs) t =
     (if t = TComma then Some (PVal (FArr items # fs))
      else if t = TRBrack then Some (complete (JArr items) fs)
      else None)"
| "pstep (PObjFirst fs) t =
     (case t of
        TRBrace \<Rightarrow> Some (complete (JObj []) fs)
      | TVal (JStr k) \<Rightarrow> Some (PColon [] k fs)
      | _ \<Rightarrow> None)"
| "pstep (PKey d fs) t =
     (case t of TVal (JStr k) \<Rightarrow> Some (PColon d k fs) | _ \<Rightarrow> None)"
| "pstep (PColon d k fs) t = (if t = TColon then Some (PVal (FObj d k # fs)) else None)"
| "pstep (PObjNext d fs) t =
     (if t = TComma then Some (PKey d fs)
      else if t = TRBrace then Some (complete (JObj d) fs)
      else None)"
| "pstep (PDone v) t = None"

fun parse_tokens :: "pstate \<Rightarrow> token list \<Rightarrow> json option" where
  "parse_tokens st [] = (case st of PDone v \<Rightarrow> Some v | _ \<Rightarrow> None)"
| "parse_tokens st (t # ts) =
     (case pstep st t of None \<Rightarrow> None | Some st' \<Rightarrow> parse_tokens st' ts)"

definition json_loads :: "string \<Rightarrow> py_error + json" where
  "json_loads s =
     (case lex s of
        None \<Rightarrow> Inl JSONDecodeError
      | Some ts \<Rightarrow>
          (case parse_tokens (PVal []) ts of
             None \<Rightarrow> Inl JSONDecodeError
           | Some v \<Rightarrow> Inr v))"

section \<open>Operations of Python and of its standard library\<close>

subsection \<open>Membership, subscription and \<^verbatim>\<open>dict.get\<close>\<close>

fun find_sub :: "string \<Rightarrow> string \<Rightarrow> bool" where
  "find_sub k [] = (k = [])"
| "find_sub k (c # s) = (take (length k) (c # s) = k \<or> find_sub k s)"

text \<open>
  \<^verbatim>\<open>k in v\<close> for a string \<open>k\<close>: a key of a \<^verbatim>\<open>dict\<close>, an element of a \<^verbatim>\<open>list\<close>, a substring
  of a \<^verbatim>\<open>str\<close>; \<^verbatim>\<open>None\<close>, a \<^verbatim>\<open>bool\<close>, an \<^verbatim>\<open>int\<close> and a \<^verbatim>\<open>float\<close> are not iterable.
\<close>

fun py_in :: "string \<Rightarrow> json \<Rightarrow> py_error + bool" where
  "py_in k (JObj d) = Inr (k \<in> set (map fst d))"
| "py_in k (JArr xs) = Inr (JStr k \<in> set xs)"
| "py_in k (JStr s) = Inr (find_sub k s)"
| "py_in k _ = Inl TypeError"

text \<open>\<^verbatim>\<open>v[k]\<close> for a string \<open>k\<close>: only a \<^verbatim>\<open>dict\<close> takes a string as subscript.\<close>

fun py_getitem :: "json \<Rightarrow> string \<Rightarrow> py_error + json" where
  "py_getitem (JObj d) k = (case map_of d k of None \<Rightarrow> Inl (KeyError k) | Some v \<Rightarrow> Inr v)"
| "py_getitem _ k = Inl TypeError"

text \<open>\<^verbatim>\<open>v.get(k, default)\<close>: only a \<^verbatim>\<open>dict\<close> has the method.\<close>

fun py_get :: "json \<Rightarrow> string \<Rightarrow> json \<Rightarrow> py_error + json" where
  "py_get (JObj d) k dflt = (case map_of d k of None \<Rightarrow> Inr dflt | Some v \<Rightarrow> Inr v)"
| "py_get _ k dflt = Inl AttributeError"

subsection \<open>\<^verbatim>\<open>str.strip\<close> and \<^verbatim>\<open>str.encode\<close>\<close>

text \<open>The code points for which \<^verbatim>\<open>str.isspace\<close> holds.\<close>

definition is_space :: "nat \<Rightarrow> bool" where
  "is_space cp =
     (if cp < 0x80 then (0x09 \<le> cp \<and> cp \<le> 0x0D) \<or> (0x1C \<le> cp \<and> cp \<le> 0x20)
      else if cp < 0x100 then cp = 0x85 \<or> cp = 0xA0
      else cp = 0x1680 \<or> (0x2000 \<le> cp \<and> cp \<le> 0x200A) \<or> cp = 0x2028 \<or> cp = 0x2029
           \<or> cp = 0x202F \<or> cp = 0x205F \<or> cp = 0x3000)"

text \<open>
  The code points of a text, each with its bytes (an ill-formed sequence is a chunk
  without code point). \<^verbatim>\<open>strip\<close> removes the white space at both ends.
\<close>

fun chunks :: "string \<Rightarrow> (nat option \<times> string) list" where
  "chunks [] = []"
| "chunks (a # s) =
     (case utf8_next True (a # s) of
        (r, n) \<Rightarrow> (r, take n (a # s)) # chunks (drop n (a # s)))"

definition is_space_chunk :: "nat option \<times> string \<Rightarrow> bool" where
  "is_space_chunk c = (case fst c of Some cp \<Rightarrow> is_space cp | None \<Rightarrow> False)"

definition strip :: "string \<Rightarrow> string" where
  "strip s =
     concat (map snd (rev (dropWhile is_space_chunk (rev (dropWhile is_space_chunk (chunks s))))))"

text \<open>
  \<^verbatim>\<open>s.encode()\<close>: the UTF-8 bytes, which are the text itself; a surrogate cannot be encoded.
\<close>

definition encode :: "string \<Rightarrow> py_error + string" where
  "encode s = (if utf8_decode False s = None then Inl UnicodeEncodeError else Inr s)"

subsection \<open>\<^verbatim>\<open>base64.b64encode\<close>\<close>

definition b64_char :: "nat \<Rightarrow> char" where
  "b64_char n =
     (''ABCDEFGHIJKLMNOPQRSTUVWXYZabcdefghijklmnopqrstuvwxyz0123456789+/'') ! (n mod 64)"

text \<open>
  Three bytes give four digits of six bits each; one or two bytes at the end are padded
  with \<^verbatim>\<open>=\<close>.
\<close>

fun b64encode :: "string \<Rightarrow> string" where
  "b64encode (a # b # c # s) =
     [b64_char (code_of a div 4),
      b64_char (code_of a mod 4 * 16 + code_of b div 16),
      b64_char (code_of b mod 16 * 4 + code_of c div 64),
      b64_char (code_of c mod 64)] @ b64encode s"
| "b64encode [a, b] =
     [b64_char (code_of a div 4),
      b64_char (code_of a mod 4 * 16 + code_of b div 16),
      b64_char (code_of b mod 16 * 4),
      CHR ''='']"
| "b64encode [a] =
     [b64_char (code_of a div 4), b64_char (code_of a mod 4 * 16), CHR ''='', CHR ''='']"
| "b64encode [] = []"

subsection \<open>Decimal and hexadecimal numerals\<close>

fun str_nat :: "nat \<Rightarrow> string" where
  "str_nat n = (if n < 10 then [char_of (48 + n)] else str_nat (n div 10) @ [char_of (48 + n mod 10)])"

declare str_nat.simps [simp del]

definition str_int :: "int \<Rightarrow> string" where
  "str_int i = (if i < 0 then ''-'' @ str_nat (nat (- i)) else str_nat (nat i))"

definition hex_digit :: "nat \<Rightarrow> char" where
  "hex_digit n = ''0123456789abcdef'' ! (n mod 16)"

definition hex4 :: "nat \<Rightarrow> string" where
  "hex4 n = [hex_digit (n div 4096), hex_digit (n div 256), hex_digit (n div 16), hex_digit n]"

subsection \<open>The JSON encoder: \<^verbatim>\<open>json.dumps\<close>\<close>

text \<open>
  The encoder in its default configuration: \<^verbatim>\<open>ensure_ascii=True\<close>, the separators
  \<^verbatim>\<open>', '\<close> and \<^verbatim>\<open>': '\<close>, no indentation. \<open>ascii_escape cp\<close> is the text written for one
  code point of a string.
\<close>

definition ascii_escape :: "nat \<Rightarrow> string" where
  "ascii_escape cp =
     (if cp = 0x22 then [CHR 0x5C, CHR 0x22]
      else if cp = 0x5C then [CHR 0x5C, CHR 0x5C]
      else if cp = 0x0A then [CHR 0x5C, CHR ''n'']
      else if cp = 0x0D then [CHR 0x5C, CHR ''r'']
      else if cp = 0x09 then [CHR 0x5C, CHR ''t'']
      else if cp = 0x08 then [CHR 0x5C, CHR ''b'']
      else if cp = 0x0C then [CHR 0x5C, CHR ''f'']
      else if 0x20 \<le> cp \<and> cp \<le> 0x7E then [char_of cp]
      else if cp < 0x10000 then [CHR 0x5C, CHR ''u''] @ hex4 cp
      else [CHR 0x5C, CHR ''u''] @ hex4 (0xD800 + (cp - 0x10000) div 1024 mod 1024)
           @ [CHR 0x5C, CHR ''u''] @ hex4 (0xDC00 + (cp - 0x10000) mod 1024))"

fun escape_text :: "string \<Rightarrow> string" where
  "escape_text [] = []"
| "escape_text (a # s) =
     (case utf8_next True (a # s) of
        (Some cp, n) \<Rightarrow> ascii_escape cp @ escape_text (drop n (a # s))
      | (None, n) \<Rightarrow> ascii_escape 0xFFFD @ escape_text (drop n (a # s)))"

definition encode_str :: "string \<Rightarrow> string" where
  "encode_str s = [CHR 0x22] @ escape_text s @ [CHR 0x22]"

fun join :: "string \<Rightarrow> string list \<Rightarrow> string" where
  "join sep [] = []"
| "join sep [x] = x"
| "join sep (x # y # ys) = x @ sep @ join sep (y # ys)"

text \<open>
  \<open>float_repr\<close> is the rendering of a float by \<^verbatim>\<open>float.__repr__\<close> (and \<^verbatim>\<open>NaN\<close>,
  \<^verbatim>\<open>Infinity\<close>, \<^verbatim>\<open>-Infinity\<close>), a function of the decimal text that stands for the float.
\<close>

fun json_dumps :: "(string \<Rightarrow> string) \<Rightarrow> json \<Rightarrow> string" where
  "json_dumps float_repr JNull = ''null''"
| "json_dumps float_repr (JBool b) = (if b then ''true'' else ''false'')"
| "json_dumps float_repr (JInt i) = str_int i"
| "json_dumps float_repr (JFloat t) = float_repr t"
| "json_dumps float_repr (JStr s) = encode_str s"
| "json_dumps float_repr (JArr xs) =
     ''['' @ join '', '' (map (json_dumps float_repr) xs) @ '']''"
| "json_dumps float_repr (JObj d) =
     ''{'' @ join '', '' (map (\<lambda>(k, v). encode_str k @ '': '' @ json_dumps float_repr v) d) @ ''}''"

subsection \<open>\<^verbatim>\<open>urllib.parse\<close>: the query of a request target\<close>

text \<open>
  \<^verbatim>\<open>urlparse(url).query\<close> (CPython 3.11). The URL loses its leading C0 control characters
  and spaces and every tab, carriage return and line feed; a scheme and an authority
  (after \<^verbatim>\<open>//\<close>) are split off; the query is what stands between the first \<^verbatim>\<open>?\<close> and the
  first \<^verbatim>\<open>#\<close> of the rest. \<^verbatim>\<open>urlsplit\<close> raises \<open>ValueError\<close> on an authority with one
  square bracket only; its further checks of a bracketed host (\<^verbatim>\<open>ipaddress\<close>) and of
  a non-ASCII authority (Unicode normalisation) are the parameter \<open>check_netloc\<close>.
\<close>

definition is_scheme_char :: "char \<Rightarrow> bool" where
  "is_scheme_char c =
     (let n = code_of c in
      (97 \<le> n \<and> n \<le> 122) \<or> (65 \<le> n \<and> n \<le> 90) \<or> (48 \<le> n \<and> n \<le> 57)
      \<or> c = CHR ''+'' \<or> c = CHR ''-'' \<or> c = CHR ''.'')"

definition is_ascii_alpha :: "char \<Rightarrow> bool" where
  "is_ascii_alpha c = (let n = code_of c in (97 \<le> n \<and> n \<le> 122) \<or> (65 \<le> n \<and> n \<le> 90))"

definition strip_scheme :: "string \<Rightarrow> string" where
  "strip_scheme url =
     (let pre = takeWhile (\<lambda>c. c \<noteq> CHR '':'') url in
      if pre \<noteq> url \<and> pre \<noteq> [] \<and> is_ascii_alpha (hd pre) \<and> list_all is_scheme_char pre
      then drop (Suc (length pre)) url else url)"

definition splitnetloc :: "string \<Rightarrow> string \<times> string" where
  "splitnetloc url =
     (let after = drop 2 url;
          netloc = takeWhile (\<lambda>c. c \<noteq> CHR ''/'' \<and> c \<noteq> CHR ''?'' \<and> c \<noteq> CHR ''#'') after
      in (netloc, drop (length netloc) after))"

definition urlparse_query :: "(string \<Rightarrow> bool) \<Rightarrow> string \<Rightarrow> py_error + string" where
  "urlparse_query check_netloc url0 =
     (let url1 = dropWhile (\<lambda>c. code_of c \<le> 0x20) url0;
          url2 = filter (\<lambda>c. c \<noteq> CHR 0x09 \<and> c \<noteq> CHR 0x0D \<and> c \<noteq> CHR 0x0A) url1;
          url3 = strip_scheme url2;
          (netloc, url4) = (if take 2 url3 = ''//'' then splitnetloc url3 else ([], url3));
          url5 = takeWhile (\<lambda>c. c \<noteq> CHR ''#'') url4;
          query = drop 1 (dropWhile (\<lambda>c. c \<noteq> CHR ''?'') url5)
      in if (CHR ''['' \<in> set netloc) \<noteq> (CHR '']'' \<in> set netloc) then Inl ValueError
         else if (CHR ''['' \<in> set netloc \<or> \<not> list_all (\<lambda>c. code_of c < 0x80) netloc)
                 \<and> \<not> check_netloc netloc then Inl ValueError
         else Inr query)"

text \<open>
  \<^verbatim>\<open>unquote_to_bytes\<close>: \<^verbatim>\<open>%\<close> and two hexadecimal digits are one byte; any other \<^verbatim>\<open>%\<close>
  stays.
\<close>

fun unquote_to_bytes :: "string \<Rightarrow> string" where
  "unquote_to_bytes (p # a # b # s) =
     (if p = CHR ''%'' then
        (case (hexval a, hexval b) of
           (Some h, Some l) \<Rightarrow> char_of (h * 16 + l) # unquote_to_bytes s
         | _ \<Rightarrow> p # unquote_to_bytes (a # b # s))
      else p # unquote_to_bytes (a # b # s))"
| "unquote_to_bytes s = s"

text \<open>
  \<^verbatim>\<open>unquote\<close> with \<^verbatim>\<open>encoding='utf-8', errors='replace'\<close>: every maximal run of ASCII
  characters is turned into bytes and decoded, the text between the runs is kept.
\<close>

definition is_ascii :: "char \<Rightarrow> bool" where
  "is_ascii c = (code_of c < 0x80)"

function unquote_runs :: "string \<Rightarrow> string" where
  "unquote_runs s =
     (if s = [] then []
      else
        (let run = takeWhile is_ascii s;
             rest = dropWhile is_ascii s;
             kept = takeWhile (\<lambda>c. \<not> is_ascii c) rest
         in utf8_replace (unquote_to_bytes run) @ kept
            @ unquote_runs (dropWhile (\<lambda>c. \<not> is_ascii c) rest)))"
  by pat_completeness auto
termination
proof (relation "measure length")
  show "wf (measure (length :: string \<Rightarrow> nat))" by simp
next
  fix s :: string and run rest kept
  assume s: "s \<noteq> []" and rest: "rest = dropWhile is_ascii s"
  show "(dropWhile (\<lambda>c. \<not> is_ascii c) rest, s) \<in> measure length"
  proof (cases "is_ascii (hd s)")
    case True
    with s have "length (dropWhile is_ascii s) < length s"
      by (cases s) (auto intro: le_imp_less_Suc length_dropWhile_le)
    moreover have "length (dropWhile (\<lambda>c. \<not> is_ascii c) rest) \<le> length rest"
      by (rule length_dropWhile_le)
    ultimately show ?thesis using rest by simp
  next
    case False
    with s have r: "rest = s" using rest by (cases s) auto
    from s False have "length (dropWhile (\<lambda>c. \<not> is_ascii c) s) < length s"
      by (cases s) (auto intro: le_imp_less_Suc length_dropWhile_le)
    with r show ?thesis by simp
  qed
qed

declare unquote_runs.simps [simp del]

definition unquote :: "string \<Rightarrow> string" where
  "unquote s = (if CHR ''%'' \<in> set s then unquote_runs s else s)"

definition unquote_plus :: "string \<Rightarrow> string" where
  "unquote_plus s = unquote (map (\<lambda>c. if c = CHR ''+'' then CHR '' '' else c) s)"

text \<open>\<^verbatim>\<open>s.split(sep)\<close> for a separator of one character.\<close>

fun split_on :: "char \<Rightarrow> string \<Rightarrow> string list" where
  "split_on sep [] = [[]]"
| "split_on sep (c # s) =
     (if c = sep then [] # split_on sep s
      else (case split_on sep s of x # xs \<Rightarrow> (c # x) # xs | [] \<Rightarrow> [[c]]))"

text \<open>
  \<^verbatim>\<open>parse_qsl\<close> and \<^verbatim>\<open>parse_qs\<close> with their defaults: the fields are separated by \<^verbatim>\<open>&\<close>,
  a field without \<^verbatim>\<open>=\<close> or with an empty value is dropped, and the values of a name are
  collected in their order.
\<close>

definition parse_qsl :: "string \<Rightarrow> (string \<times> string) list" where
  "parse_qsl qs =
     (if qs = [] then []
      else concat (map (\<lambda>name_value.
             let name = takeWhile (\<lambda>c. c \<noteq> CHR ''='') name_value;
                 val = drop (Suc (length name)) name_value
             in if name_value \<noteq> [] \<and> val \<noteq> [] then [(unquote_plus name, unquote_plus val)] else [])
           (split_on (CHR ''&'') qs)))"

fun add_field :: "(string \<times> string list) list \<Rightarrow> string \<times> string \<Rightarrow> (string \<times> string list) list" where
  "add_field d (name, val) =
     (case map_of d name of
        Some vs \<Rightarrow> AList.update name (vs @ [val]) d
      | None \<Rightarrow> d @ [(name, [val])])"

definition parse_qs :: "string \<Rightarrow> (string \<times> string list) list" where
  "parse_qs qs = foldl add_field [] (parse_qsl qs)"

section \<open>The program: \<^verbatim>\<open>generate_tokens.py\<close>\<close>

subsection \<open>The world and the environment\<close>

text \<open>
  What the program prints is recorded as a message, not as text: each constructor is
  one \<^verbatim>\<open>print\<close> of the source (\<open>Msg401Causes\<close> is the block of six under
  \<^verbatim>\<open>if response.status_code == 401\<close>). \<open>ErrorJson e m\<close> is the detail
  \<^verbatim>\<open>"\nError: {e}"\<close>, followed by \<^verbatim>\<open>"\nMessage: {m}"\<close> when the body has a message;
  \<open>ResponseText t\<close> is \<^verbatim>\<open>"\nResponse: {t}"\<close>.
\<close>

datatype error_detail = ErrorJson json "json option" | ResponseText string

datatype msg =
    MsgWaiting
  | MsgCodeCaptured string
  | MsgTokenExists
  | MsgCorrupted
  | MsgOpening
  | MsgSaved
  | MsgAuthFailed int error_detail
  | Msg401Causes

text \<open>
  The effects of the program, in the order in which they happen: a \<^verbatim>\<open>print\<close>, the start
  of the listener thread, \<^verbatim>\<open>webbrowser.open\<close>, the listener's answer to the browser
  (status and body), and \<^verbatim>\<open>requests.post\<close> (URL, headers, form data).
\<close>

datatype event =
    Print msg
  | StartThread
  | OpenBrowser string
  | Respond int string
  | Post string "(string \<times> string) list" "(string \<times> string) list"

text \<open>
  The state that the program reads and writes: the files of the working directory (a
  path is mapped to the bytes of a readable regular file), the global \<^verbatim>\<open>auth_code\<close>, and
  the effects so far.
\<close>

record world =
  files :: "string \<Rightarrow> string option"
  auth_code :: "string option"
  trace :: "event list"

record response =
  status_code :: int
  resp_text :: string

text \<open>
  What the outside supplies. \<open>environ\<close> is \<^verbatim>\<open>os.environ\<close> after \<^verbatim>\<open>load_dotenv()\<close>.
  \<open>inbound = Some (k, path)\<close>: the one request that \<^verbatim>\<open>server.handle_request()\<close> serves is
  \<^verbatim>\<open>GET path\<close>, and \<^verbatim>\<open>do_GET\<close> has run when the main thread tests \<^verbatim>\<open>auth_code\<close> for the
  \<open>k\<close>-th time (counted from 0); \<open>inbound = None\<close>: \<^verbatim>\<open>do_GET\<close> never runs. \<open>http_post\<close> is the
  answer of \<^verbatim>\<open>requests.post\<close>. \<open>float_repr\<close> and \<open>check_netloc\<close> are the two library
  functions that are parameters here.
\<close>

record env =
  environ :: "string \<Rightarrow> string option"
  inbound :: "(nat \<times> string) option"
  http_post :: "string \<Rightarrow> (string \<times> string) list \<Rightarrow> (string \<times> string) list \<Rightarrow> py_error + response"
  float_repr :: "string \<Rightarrow> string"
  check_netloc :: "string \<Rightarrow> bool"

definition emit :: "event \<Rightarrow> world \<Rightarrow> world" where
  "emit e w = w\<lparr>trace := trace w @ [e]\<rparr>"

subsection \<open>The constants of the module\<close>

definition getenv :: "env \<Rightarrow> string \<Rightarrow> string \<Rightarrow> string" where
  "getenv env name dflt = (case environ env name of None \<Rightarrow> dflt | Some v \<Rightarrow> v)"

definition CLIENT_ID :: "env \<Rightarrow> string" where
  "CLIENT_ID env = strip (getenv env ''CLIENT_ID'' [])"

definition CLIENT_SECRET :: "env \<Rightarrow> string" where
  "CLIENT_SECRET env = strip (getenv env ''CLIENT_SECRET'' [])"

definition REDIRECT_URI :: "env \<Rightarrow> string" where
  "REDIRECT_URI env = strip (getenv env ''REDIRECT_URI'' [])"

definition USER_AGENT :: "env \<Rightarrow> string" where
  "USER_AGENT env = strip (getenv env ''USER_AGENT'' [])"

definition TOKEN_FILE :: string where
  "TOKEN_FILE = ''tokens.json''"

subsection \<open>\<^verbatim>\<open>AuthHandler.do_GET\<close> and the listener\<close>

definition do_GET :: "env \<Rightarrow> string \<Rightarrow> world \<Rightarrow> (py_error + unit) \<times> world" where
  "do_GET env path w =
     (case urlparse_query (check_netloc env) path of
        Inl e \<Rightarrow> (Inl e, w)
      | Inr query \<Rightarrow>
          (let query_components = parse_qs query in
           case map_of query_components ''code'' of
             Some vs \<Rightarrow>
               (case vs of
                  [] \<Rightarrow> (Inl IndexError, w)
                | v # _ \<Rightarrow>
                    (let code = strip v;
                         w1 = w\<lparr>auth_code := Some code\<rparr>;
                         w2 = emit (Respond 200 ''Authorization successful! You can close this tab.'') w1
                     in (Inr (), emit (Print (MsgCodeCaptured code)) w2)))
           | None \<Rightarrow> (Inr (), emit (Respond 400 ''Error: Authorization code not found.'') w)))"

text \<open>
  \<^verbatim>\<open>start_auth_server\<close>: the thread announces itself, and \<^verbatim>\<open>server.handle_request()\<close> serves
  one request. \<open>handle_request env t\<close> is what the listener does before the \<open>t\<close>-th test of
  \<^verbatim>\<open>auth_code\<close>; an exception of \<^verbatim>\<open>do_GET\<close> ends the request and goes no further.
\<close>

definition start_auth_server :: "world \<Rightarrow> world" where
  "start_auth_server w = emit (Print MsgWaiting) w"

definition handle_request :: "env \<Rightarrow> nat \<Rightarrow> world \<Rightarrow> world" where
  "handle_request env t w =
     (case inbound env of
        None \<Rightarrow> w
      | Some (k, path) \<Rightarrow> if k = t then snd (do_GET env path w) else w)"

subsection \<open>\<^verbatim>\<open>load_existing_tokens\<close>\<close>

text \<open>
  \<^verbatim>\<open>open(TOKEN_FILE, "r", encoding="utf-8")\<close> and \<^verbatim>\<open>json.load\<close>: the bytes are decoded, then
  parsed. (The translation of line ends by a file in text mode changes no result: a line
  end is white space between tokens and an error inside a string, before and after.)
\<close>

definition json_load :: "string \<Rightarrow> py_error + json" where
  "json_load content =
     (if utf8_decode False content = None then Inl UnicodeDecodeError else json_loads content)"

definition load_existing_tokens :: "world \<Rightarrow> (py_error + bool) \<times> world" where
  "load_existing_tokens w =
     (case files w TOKEN_FILE of
        None \<Rightarrow> (Inr False, w)
      | Some content \<Rightarrow>
          (case (case json_load content of
                   Inl e \<Rightarrow> Inl e
                 | Inr tokens \<Rightarrow> py_in ''refresh_token'' tokens) of
             Inr found \<Rightarrow> if found then (Inr True, emit (Print MsgTokenExists) w) else (Inr False, w)
           | Inl e \<Rightarrow>
               if is_ValueError e then (Inr False, emit (Print MsgCorrupted) w) else (Inl e, w)))"

subsection \<open>\<^verbatim>\<open>get_tokens\<close>\<close>

definition authorization_url :: "env \<Rightarrow> string" where
  "authorization_url env =
     ''https://www.reddit.com/api/v1/authorize?client_id='' @ CLIENT_ID env
     @ ''&response_type=code'' @ ''&state=RANDOM_STRING&redirect_uri='' @ REDIRECT_URI env
     @ ''&duration=permanent&scope=identity history read save''"

text \<open>The steps from the start of the thread to \<^verbatim>\<open>webbrowser.open\<close>.\<close>

definition begin_auth :: "env \<Rightarrow> world \<Rightarrow> world" where
  "begin_auth env w =
     (let w1 = start_auth_server (emit StartThread w);
          w2 = emit (Print MsgOpening) w1
      in emit (OpenBrowser (authorization_url env)) w2)"

text \<open>
  \<^verbatim>\<open>while auth_code is None: time.sleep(0.1)\<close>. The loop has no bound, so that not
  returning is the value \<open>None\<close>.
\<close>

partial_function (option) wait_for_code :: "env \<Rightarrow> nat \<Rightarrow> world \<Rightarrow> (string \<times> world) option" where
  "wait_for_code env t w =
     (case auth_code (handle_request env t w) of
        Some code \<Rightarrow> Some (code, handle_request env t w)
      | None \<Rightarrow> wait_for_code env (Suc t) (handle_request env t w))"

definition token_url :: string where
  "token_url = ''https://www.reddit.com/api/v1/access_token''"

definition token_headers :: "env \<Rightarrow> string \<Rightarrow> (string \<times> string) list" where
  "token_headers env b64_auth =
     [(''Authorization'', ''Basic '' @ b64_auth),
      (''User-Agent'', USER_AGENT env),
      (''Content-Type'', ''application/x-www-form-urlencoded'')]"

definition token_data :: "env \<Rightarrow> string \<Rightarrow> (string \<times> string) list" where
  "token_data env code =
     [(''grant_type'', ''authorization_code''),
      (''code'', code),
      (''redirect_uri'', REDIRECT_URI env)]"

text \<open>The \<^verbatim>\<open>else\<close> branch's \<^verbatim>\<open>try\<close>: any exception in it gives the text of the response.\<close>

definition error_detail_of :: "response \<Rightarrow> error_detail" where
  "error_detail_of response =
     (case json_loads (resp_text response) of
        Inl e \<Rightarrow> ResponseText (resp_text response)
      | Inr error_json \<Rightarrow>
          (case py_get error_json ''error'' (JStr ''Unknown'') of
             Inl e \<Rightarrow> ResponseText (resp_text response)
           | Inr err \<Rightarrow>
               (case py_in ''message'' error_json of
                  Inl e \<Rightarrow> ResponseText (resp_text response)
                | Inr has_message \<Rightarrow>
                    if has_message then
                      (case py_getitem error_json ''message'' of
                         Inl e \<Rightarrow> ResponseText (resp_text response)
                       | Inr m \<Rightarrow> ErrorJson err (Some m))
                    else ErrorJson err None)))"

text \<open>
  The report of a failed exchange is printed outside the \<^verbatim>\<open>try\<close>, and \<^verbatim>\<open>print\<close> encodes the
  whole text for the standard output (UTF-8, errors strict) before it writes anything:
  a text with a surrogate code point raises \<open>UnicodeEncodeError\<close> and nothing is printed.
  In the f-string a \<^verbatim>\<open>str\<close> stands as it is; every other value is rendered by \<^verbatim>\<open>str\<close>, which
  writes the strings inside a list or a dict with \<^verbatim>\<open>repr\<close>, where a surrogate is an escape
  of ASCII characters. So the report can be printed exactly when the error, the message
  and the text of the response, where they are strings, can be encoded. (The other texts
  that the program prints are constants, and the captured code, which comes from a
  request line read as ISO-8859-1 and from \<^verbatim>\<open>unquote\<close> with \<^verbatim>\<open>errors='replace'\<close>.)
\<close>

fun str_encodable :: "json \<Rightarrow> bool" where
  "str_encodable (JStr s) = (utf8_decode False s \<noteq> None)"
| "str_encodable _ = True"

fun detail_encodable :: "error_detail \<Rightarrow> bool" where
  "detail_encodable (ErrorJson err None) = str_encodable err"
| "detail_encodable (ErrorJson err (Some m)) = (str_encodable err \<and> str_encodable m)"
| "detail_encodable (ResponseText t) = (utf8_decode False t \<noteq> None)"

text \<open>
  \<^verbatim>\<open>get_tokens\<close> from the token exchange on. \<^verbatim>\<open>response.json()\<close> is \<open>json_loads\<close> of the text
  of the response.
\<close>

definition token_exchange :: "env \<Rightarrow> string \<Rightarrow> world \<Rightarrow> (py_error + unit) \<times> world" where
  "token_exchange env code w =
     (case encode (CLIENT_ID env @ '':'' @ CLIENT_SECRET env) of
        Inl e \<Rightarrow> (Inl e, w)
      | Inr auth_bytes \<Rightarrow>
          (let b64_auth = b64encode auth_bytes;
               headers = token_headers env b64_auth;
               data = token_data env code;
               w1 = emit (Post token_url headers data) w
           in case http_post env token_url headers data of
                Inl e \<Rightarrow> (Inl e, w1)
              | Inr response \<Rightarrow>
                  if status_code response = 200 then
                    (case json_loads (resp_text response) of
                       Inl e \<Rightarrow> (Inl e, w1)
                     | Inr tokens \<Rightarrow>
                         (case py_getitem tokens ''refresh_token'' of
                            Inl e \<Rightarrow> (Inl e, w1)
                          | Inr refresh_token \<Rightarrow>
                              (let token_data = JObj [(''refresh_token'', refresh_token)];
                                   w2 = w1\<lparr>files := (files w1)
                                          (TOKEN_FILE \<mapsto> json_dumps (float_repr env) token_data)\<rparr>
                               in (Inr (), emit (Print MsgSaved) w2))))
                  else
                    (let error_detail = error_detail_of response in
                     if detail_encodable error_detail then
                       (let w2 = emit (Print (MsgAuthFailed (status_code response)
                                                error_detail)) w1
                        in (Inr (),
                            if status_code response = 401 then emit (Print Msg401Causes) w2
                            else w2))
                     else (Inl UnicodeEncodeError, w1))))"

definition get_tokens :: "env \<Rightarrow> world \<Rightarrow> ((py_error + unit) \<times> world) option" where
  "get_tokens env w =
     (case load_existing_tokens w of
        (Inl e, w1) \<Rightarrow> Some (Inl e, w1)
      | (Inr found, w1) \<Rightarrow>
          if found then Some (Inr (), w1)
          else
            (case wait_for_code env 0 (begin_auth env w1) of
               None \<Rightarrow> None
             | Some (code, w2) \<Rightarrow> Some (token_exchange env code w2)))"

section \<open>Concrete inputs\<close>

text \<open>
  The worlds and environments at which the theorems below are evaluated. \<open>world_with\<close>
  is the state at the start of the program when \<^verbatim>\<open>tokens.json\<close> holds the given bytes, and
  \<open>fresh_world\<close> when there is no such file; \<^verbatim>\<open>auth_code\<close> is \<^verbatim>\<open>None\<close>, as the module sets it.
\<close>

definition world_with :: "string \<Rightarrow> world" where
  "world_with content = \<lparr>files = [TOKEN_FILE \<mapsto> content], auth_code = None, trace = []\<rparr>"

definition fresh_world :: world where
  "fresh_world = \<lparr>files = Map.empty, auth_code = None, trace = []\<rparr>"

definition stored_record :: string where
  \<open>stored_record = ''{"refresh_token": "r_xyz"}''\<close>


text \<open>
  \<open>silent_env\<close>: no variable is set, no request reaches the listener, and
  \<^verbatim>\<open>requests.post\<close> fails. The other environments change it field by field.
\<close>

definition silent_env :: env where
  "silent_env =
     \<lparr>environ = Map.empty, inbound = None,
      http_post = (\<lambda>url headers data. Inl RequestException),
      float_repr = (\<lambda>t. t), check_netloc = (\<lambda>netloc. True)\<rparr>"

text \<open>The URLs that have been given to \<^verbatim>\<open>webbrowser.open\<close>, in their order.\<close>

fun opened :: "event list \<Rightarrow> string list" where
  "opened [] = []"
| "opened (OpenBrowser url # es) = url # opened es"
| "opened (e # es) = opened es"

text \<open>
  \<open>denied_env\<close>: the browser comes back with \<^verbatim>\<open>GET /?error=access_denied\<close>.
  \<open>granted_env\<close>: it comes back with \<^verbatim>\<open>GET /?code=abc123&state=RANDOM_STRING\<close>, before the
  third test of \<^verbatim>\<open>auth_code\<close>.
\<close>

definition denied_env :: env where
  "denied_env = silent_env\<lparr>inbound := Some (0, ''/?error=access_denied'')\<rparr>"

definition granted_path :: string where
  "granted_path = ''/?code=abc123&state=RANDOM_STRING''"

definition granted_env :: env where
  "granted_env = silent_env\<lparr>inbound := Some (2, granted_path)\<rparr>"

text \<open>Responses of the token endpoint, and the environments in which they are the answer.\<close>

definition answer :: "int \<Rightarrow> string \<Rightarrow> env" where
  "answer status body =
     granted_env\<lparr>http_post := (\<lambda>url headers data.
        Inr \<lparr>status_code = status, resp_text = body\<rparr>)\<rparr>"

definition tokens_body :: string where
  \<open>tokens_body = ''{"refresh_token":"r_xyz","access_token":"a_1","expires_in":3600}''\<close>

definition no_refresh_body :: string where
  \<open>no_refresh_body = ''{"access_token":"a_1","expires_in":3600}''\<close>

definition invalid_grant_body :: string where
  \<open>invalid_grant_body = ''{"error":"invalid_grant"}''\<close>

text \<open>
  \<open>configured_env\<close>: the four variables are set, two of them with white space around
  the value.
\<close>

definition configured_env :: env where
  "configured_env =
     granted_env\<lparr>environ :=
       [''CLIENT_ID'' \<mapsto> '' my_id '', ''CLIENT_SECRET'' \<mapsto> ''s3cret'',
        ''REDIRECT_URI'' \<mapsto> ''http://localhost:8080 '', ''USER_AGENT'' \<mapsto> ''app/0.1'']\<rparr>"

text \<open>
  The world in which the wait of \<^verbatim>\<open>get_tokens\<close> ends, when the run starts in
  \<open>fresh_world\<close> and the listener serves \<open>granted_path\<close>.
\<close>

definition after_grant :: "env \<Rightarrow> world" where
  "after_grant env =
     emit (Print (MsgCodeCaptured ''abc123''))
       (emit (Respond 200 ''Authorization successful! You can close this tab.'')
          ((begin_auth env fresh_world)\<lparr>auth_code := Some ''abc123''\<rparr>))"



definition surrogate_body :: string where
  \<open>surrogate_body = ''{"error":"'' @ [CHR 0x5C] @ ''ud800"}''\<close>

section \<open>Effects of the steps\<close>

lemma files_emit [simp]: "files (emit e w) = files w"
  by (simp add: emit_def)

lemma auth_code_emit [simp]: "auth_code (emit e w) = auth_code w"
  by (simp add: emit_def)

lemma trace_emit [simp]: "trace (emit e w) = trace w @ [e]"
  by (simp add: emit_def)

lemma load_existing_tokens_found:
  assumes "files w TOKEN_FILE = Some content"
    and "json_load content = Inr tokens"
    and "py_in ''refresh_token'' tokens = Inr True"
  shows "load_existing_tokens w = (Inr True, emit (Print MsgTokenExists) w)"
  using assms by (simp add: load_existing_tokens_def)

lemma get_tokens_found:
  assumes "load_existing_tokens w = (Inr True, w1)"
  shows "get_tokens env w = Some (Inr (), w1)"
  using assms by (simp add: get_tokens_def)

lemma stored_record_parsed:
  "json_load stored_record = Inr (JObj [(''refresh_token'', JStr ''r_xyz'')])"
  unfolding stored_record_def by code_simp


lemma null_parsed: "json_load ''null'' = Inr JNull"
  by code_simp

lemma do_GET_files [simp]: "files (snd (do_GET env path w)) = files w"
  by (simp add: do_GET_def Let_def split: sum.splits option.splits list.splits)

lemma handle_request_files [simp]: "files (handle_request env t w) = files w"
  by (simp add: handle_request_def split: option.splits prod.splits)

lemma begin_auth_files [simp]: "files (begin_auth env w) = files w"
  by (simp add: begin_auth_def start_auth_server_def)

lemma begin_auth_auth_code [simp]: "auth_code (begin_auth env w) = auth_code w"
  by (simp add: begin_auth_def start_auth_server_def)

lemma load_existing_tokens_files [simp]: "files (snd (load_existing_tokens w)) = files w"
  by (simp add: load_existing_tokens_def split: option.splits sum.splits)

lemma load_existing_tokens_auth_code [simp]:
  "auth_code (snd (load_existing_tokens w)) = auth_code w"
  by (simp add: load_existing_tokens_def split: option.splits sum.splits)

text \<open>A request without a code parameter: the answer is 400 and \<^verbatim>\<open>auth_code\<close> is not set.\<close>

lemma do_GET_no_code:
  assumes "urlparse_query (check_netloc env) path = Inr query"
    and "map_of (parse_qs query) ''code'' = None"
  shows "do_GET env path w
           = (Inr (), emit (Respond 400 ''Error: Authorization code not found.'') w)"
  using assms by (simp add: do_GET_def)

lemma do_GET_code:
  assumes "urlparse_query (check_netloc env) path = Inr query"
    and "map_of (parse_qs query) ''code'' = Some (v # vs)"
  shows "do_GET env path w
           = (Inr (), emit (Print (MsgCodeCaptured (strip v)))
                        (emit (Respond 200 ''Authorization successful! You can close this tab.'')
                           (w\<lparr>auth_code := Some (strip v)\<rparr>)))"
  using assms by (simp add: do_GET_def Let_def)

text \<open>The loop before, at and after the test at which the request has been served.\<close>

lemma wait_for_code_skip:
  assumes "inbound env = Some (k, path)" and "t \<noteq> k" and "auth_code w = None"
  shows "wait_for_code env t w = wait_for_code env (Suc t) w"
  using assms by (subst wait_for_code.simps) (simp add: handle_request_def)

lemma wait_for_code_reach:
  assumes "inbound env = Some (k, path)" and "auth_code w = None" and "t \<le> k"
  shows "wait_for_code env t w = wait_for_code env k w"
  using assms(3)
proof (induction "k - t" arbitrary: t)
  case 0
  then show ?case by simp
next
  case (Suc n)
  then have "t \<noteq> k" and "n = k - Suc t" and "Suc t \<le> k" by simp_all
  with Suc.hyps(1) [of "Suc t"] wait_for_code_skip [OF assms(1) _ assms(2), of t]
  show ?case by simp
qed

lemma wait_for_code_arrive:
  assumes "inbound env = Some (k, path)"
    and "auth_code (snd (do_GET env path w)) = Some code"
  shows "wait_for_code env k w = Some (code, snd (do_GET env path w))"
  using assms by (subst wait_for_code.simps) (simp add: handle_request_def)

lemma wait_for_code_returns:
  assumes "inbound env = Some (k, path)" and "auth_code w = None"
    and "auth_code (snd (do_GET env path w)) = Some code"
  shows "wait_for_code env 0 w = Some (code, snd (do_GET env path w))"
  using wait_for_code_reach [OF assms(1,2), of 0] wait_for_code_arrive [OF assms(1,3)]
  by simp

text \<open>
  When the listener never sets \<^verbatim>\<open>auth_code\<close>, the loop does not end.
\<close>

lemma wait_for_code_never:
  assumes quiet: "\<And>t w. auth_code w = None \<Longrightarrow> auth_code (handle_request env t w) = None"
    and none: "auth_code w = None"
  shows "wait_for_code env t w = None"
proof (cases "wait_for_code env t w")
  case None
  then show ?thesis .
next
  case (Some y)
  have "env = env \<longrightarrow> auth_code w \<noteq> None"
  proof (rule wait_for_code.raw_induct
      [where P = "\<lambda>e t w y. e = env \<longrightarrow> auth_code w \<noteq> None", OF _ Some])
    fix wait e t w y
    assume IH: "\<And>e t w y. wait e t w = Some y \<Longrightarrow> e = env \<longrightarrow> auth_code w \<noteq> None"
      and step: "(case auth_code (handle_request e t w) of
                    None \<Rightarrow> wait e (Suc t) (handle_request e t w)
                  | Some code \<Rightarrow> Some (code, handle_request e t w)) = Some y"
    show "e = env \<longrightarrow> auth_code w \<noteq> None"
    proof (intro impI notI)
      assume e: "e = env" and "auth_code w = None"
      then have q: "auth_code (handle_request e t w) = None" using quiet by simp
      with step have "wait e (Suc t) (handle_request e t w) = Some y" by simp
      from IH [OF this] e q show False by simp
    qed
  qed
  with none show ?thesis by simp
qed

lemma handle_request_quiet_None:
  assumes "inbound env = None"
  shows "handle_request env t w = w"
  using assms by (simp add: handle_request_def)

lemma handle_request_quiet_no_code:
  assumes "inbound env = Some (k, path)"
    and "auth_code (snd (do_GET env path w)) = auth_code w"
  shows "auth_code (handle_request env t w) = auth_code w"
  using assms by (simp add: handle_request_def)

lemma get_tokens_not_found:
  assumes "load_existing_tokens w = (Inr False, w1)"
  shows "get_tokens env w =
           (case wait_for_code env 0 (begin_auth env w1) of
              None \<Rightarrow> None
            | Some (code, w2) \<Rightarrow> Some (token_exchange env code w2))"
  using assms by (simp add: get_tokens_def)

lemma opened_append [simp]: "opened (es @ fs) = opened es @ opened fs"
  by (induction es rule: opened.induct) simp_all

lemma do_GET_opened [simp]: "opened (trace (snd (do_GET env path w))) = opened (trace w)"
  by (simp add: do_GET_def Let_def split: sum.splits option.splits list.splits)

lemma handle_request_opened [simp]:
  "opened (trace (handle_request env t w)) = opened (trace w)"
  by (simp add: handle_request_def split: option.splits prod.splits)

lemma load_existing_tokens_opened [simp]:
  "opened (trace (snd (load_existing_tokens w))) = opened (trace w)"
  by (simp add: load_existing_tokens_def split: option.splits sum.splits)

lemma begin_auth_trace:
  "trace (begin_auth env w) =
     trace w @ [StartThread, Print MsgWaiting, Print MsgOpening, OpenBrowser (authorization_url env)]"
  by (simp add: begin_auth_def start_auth_server_def)

text \<open>What the loop leaves as it was, when it ends.\<close>

lemma wait_for_code_result:
  assumes "wait_for_code env t w = Some y"
  shows "files (snd y) = files w \<and> opened (trace (snd y)) = opened (trace w)
         \<and> auth_code (snd y) = Some (fst y)"
proof (rule wait_for_code.raw_induct
    [where P = "\<lambda>e t w y. files (snd y) = files w \<and> opened (trace (snd y)) = opened (trace w)
                  \<and> auth_code (snd y) = Some (fst y)", OF _ assms])
  fix wait e t w y
  assume IH: "\<And>e t w y. wait e t w = Some y \<Longrightarrow>
                files (snd y) = files w \<and> opened (trace (snd y)) = opened (trace w)
                \<and> auth_code (snd y) = Some (fst y)"
    and step: "(case auth_code (handle_request e t w) of
                  None \<Rightarrow> wait e (Suc t) (handle_request e t w)
                | Some code \<Rightarrow> Some (code, handle_request e t w)) = Some y"
  show "files (snd y) = files w \<and> opened (trace (snd y)) = opened (trace w)
        \<and> auth_code (snd y) = Some (fst y)"
  proof (cases "auth_code (handle_request e t w)")
    case None
    with step have "wait e (Suc t) (handle_request e t w) = Some y" by simp
    from IH [OF this] show ?thesis by simp
  next
    case (Some c)
    with step show ?thesis by auto
  qed
qed

lemma wait_for_code_frame:
  assumes "wait_for_code env t w = Some (code, w')"
  shows "files w' = files w" and "opened (trace w') = opened (trace w)"
    and "auth_code w' = Some code"
  using wait_for_code_result [OF assms] by simp_all

text \<open>The token exchange, case by case.\<close>

lemma token_exchange_ok:
  assumes "encode (CLIENT_ID env @ '':'' @ CLIENT_SECRET env) = Inr auth_bytes"
    and "http_post env token_url (token_headers env (b64encode auth_bytes)) (token_data env code)
           = Inr response"
    and "status_code response = 200"
    and "json_loads (resp_text response) = Inr tokens"
    and "py_getitem tokens ''refresh_token'' = Inr refresh_token"
  shows "token_exchange env code w =
           (Inr (),
            emit (Print MsgSaved)
              ((emit (Post token_url (token_headers env (b64encode auth_bytes)) (token_data env code)) w)
                 \<lparr>files := (files w)(TOKEN_FILE \<mapsto>
                     json_dumps (float_repr env) (JObj [(''refresh_token'', refresh_token)]))\<rparr>))"
  using assms by (simp add: token_exchange_def Let_def)

lemma token_exchange_no_item:
  assumes "encode (CLIENT_ID env @ '':'' @ CLIENT_SECRET env) = Inr auth_bytes"
    and "http_post env token_url (token_headers env (b64encode auth_bytes)) (token_data env code)
           = Inr response"
    and "status_code response = 200"
    and "json_loads (resp_text response) = Inr tokens"
    and "py_getitem tokens ''refresh_token'' = Inl e"
  shows "token_exchange env code w =
           (Inl e, emit (Post token_url (token_headers env (b64encode auth_bytes)) (token_data env code)) w)"
  using assms by (simp add: token_exchange_def Let_def)

lemma token_exchange_failed:
  assumes "encode (CLIENT_ID env @ '':'' @ CLIENT_SECRET env) = Inr auth_bytes"
    and "http_post env token_url (token_headers env (b64encode auth_bytes)) (token_data env code)
           = Inr response"
    and "status_code response \<noteq> 200"
    and "detail_encodable (error_detail_of response)"
  shows "token_exchange env code w =
           (Inr (),
            (if status_code response = 401 then emit (Print Msg401Causes) else (\<lambda>w. w))
              (emit (Print (MsgAuthFailed (status_code response) (error_detail_of response)))
                 (emit (Post token_url (token_headers env (b64encode auth_bytes)) (token_data env code)) w)))"
  using assms by (simp add: token_exchange_def Let_def)

lemma token_exchange_unprintable:
  assumes "encode (CLIENT_ID env @ '':'' @ CLIENT_SECRET env) = Inr auth_bytes"
    and "http_post env token_url (token_headers env (b64encode auth_bytes)) (token_data env code)
           = Inr response"
    and "status_code response \<noteq> 200"
    and "\<not> detail_encodable (error_detail_of response)"
  shows "token_exchange env code w =
           (Inl UnicodeEncodeError,
            emit (Post token_url (token_headers env (b64encode auth_bytes)) (token_data env code)) w)"
  using assms by (simp add: token_exchange_def Let_def)

text \<open>After an answer other than 200 the files are as before, reported or not.\<close>

lemma token_exchange_failed_files:
  assumes "encode (CLIENT_ID env @ '':'' @ CLIENT_SECRET env) = Inr auth_bytes"
    and "http_post env token_url (token_headers env (b64encode auth_bytes)) (token_data env code)
           = Inr response"
    and "status_code response \<noteq> 200"
  shows "files (snd (token_exchange env code w)) = files w"
  using assms by (simp add: token_exchange_def Let_def)


lemma token_exchange_opened [simp]:
  "opened (trace (snd (token_exchange env code w))) = opened (trace w)"
  by (simp add: token_exchange_def Let_def split: sum.splits)

lemma token_exchange_posts:
  assumes "encode (CLIENT_ID env @ '':'' @ CLIENT_SECRET env) = Inr auth_bytes"
  shows "\<exists>es. trace (snd (token_exchange env code w)) =
           trace w @ Post token_url (token_headers env (b64encode auth_bytes)) (token_data env code) # es"
  using assms by (simp add: token_exchange_def Let_def split: sum.splits)

text \<open>The whole run, when no token is stored and the loop ends.\<close>

lemma get_tokens_run:
  assumes "load_existing_tokens w = (Inr False, w1)"
    and "wait_for_code env 0 (begin_auth env w1) = Some (code, w2)"
  shows "get_tokens env w = Some (token_exchange env code w2)"
    and "files w2 = files w"
    and "opened (trace w2) = opened (trace w) @ [authorization_url env]"
proof -
  show "get_tokens env w = Some (token_exchange env code w2)"
    using assms by (simp add: get_tokens_not_found)
  have w1: "w1 = snd (load_existing_tokens w)" using assms(1) by simp
  from wait_for_code_frame [OF assms(2)]
  show "files w2 = files w" and "opened (trace w2) = opened (trace w) @ [authorization_url env]"
    by (simp_all add: w1 begin_auth_trace)
qed

lemma fresh_world_load: "load_existing_tokens fresh_world = (Inr False, fresh_world)"
  by (simp add: load_existing_tokens_def fresh_world_def)

lemma denied_query:
  "urlparse_query f ''/?error=access_denied'' = Inr ''error=access_denied''"
  by code_simp

lemma denied_components: "map_of (parse_qs ''error=access_denied'') ''code'' = None"
  by code_simp

lemma granted_query:
  "urlparse_query f granted_path = Inr ''code=abc123&state=RANDOM_STRING''"
  unfolding granted_path_def by code_simp

lemma granted_components:
  "map_of (parse_qs ''code=abc123&state=RANDOM_STRING'') ''code'' = Some [''abc123'']"
  by code_simp

lemma strip_abc123: "strip ''abc123'' = ''abc123''"
  by code_simp

text \<open>A listener that never sets the code keeps the whole run from returning.\<close>

lemma get_tokens_never:
  assumes "load_existing_tokens w = (Inr False, w1)"
    and "auth_code w = None"
    and "\<And>t w. auth_code w = None \<Longrightarrow> auth_code (handle_request env t w) = None"
  shows "get_tokens env w = None"
proof -
  have "auth_code w1 = None"
    using assms(1,2) load_existing_tokens_auth_code [of w] by simp
  then have "wait_for_code env 0 (begin_auth env w1) = None"
    by (intro wait_for_code_never assms(3)) simp_all
  with assms(1) show ?thesis by (simp add: get_tokens_not_found)
qed

lemma get_tokens_no_request:
  assumes "load_existing_tokens w = (Inr False, w1)"
    and "auth_code w = None"
    and "inbound env = None"
  shows "get_tokens env w = None"
  using assms(1,2)
  by (rule get_tokens_never) (simp add: handle_request_quiet_None [OF assms(3)])

lemma get_tokens_no_code:
  assumes "load_existing_tokens w = (Inr False, w1)"
    and "auth_code w = None"
    and "inbound env = Some (k, path)"
    and "urlparse_query (check_netloc env) path = Inr query"
    and "map_of (parse_qs query) ''code'' = None"
  shows "get_tokens env w = None"
  using assms(1,2)
proof (rule get_tokens_never)
  fix t and w' :: world
  assume "auth_code w' = None"
  then show "auth_code (handle_request env t w') = None"
    using handle_request_quiet_no_code [OF assms(3), of w' t]
    by (simp add: do_GET_no_code [OF assms(4,5)])
qed

lemma denied_env_simps [simp]:
  "inbound denied_env = Some (0, ''/?error=access_denied'')"
  "check_netloc denied_env = (\<lambda>netloc. True)"
  by (simp_all add: denied_env_def silent_env_def)

lemma granted_env_simps [simp]:
  "inbound granted_env = Some (2, granted_path)"
  "check_netloc granted_env = (\<lambda>netloc. True)"
  "environ granted_env = Map.empty"
  "float_repr granted_env = (\<lambda>t. t)"
  by (simp_all add: granted_env_def silent_env_def)

lemma answer_simps [simp]:
  "inbound (answer status body) = Some (2, granted_path)"
  "check_netloc (answer status body) = (\<lambda>netloc. True)"
  "environ (answer status body) = Map.empty"
  "float_repr (answer status body) = (\<lambda>t. t)"
  "http_post (answer status body) url headers data
     = Inr \<lparr>status_code = status, resp_text = body\<rparr>"
  by (simp_all add: answer_def)

lemma strip_Nil: "strip [] = []"
  by code_simp

lemma unconfigured:
  assumes "environ env = Map.empty"
  shows "CLIENT_ID env = []" and "CLIENT_SECRET env = []"
    and "REDIRECT_URI env = []" and "USER_AGENT env = []"
  using assms
  by (simp_all add: CLIENT_ID_def CLIENT_SECRET_def REDIRECT_URI_def USER_AGENT_def
        getenv_def strip_Nil)

lemma encode_colon: "encode '':'' = Inr '':''"
  by code_simp

lemma b64encode_colon: "b64encode '':'' = ''Og==''"
  by code_simp

text \<open>The run up to the token exchange when the browser comes back with the code.\<close>

lemma granted_wait:
  assumes "inbound env = Some (k, granted_path)" and "auth_code w = None"
  shows "wait_for_code env 0 w
           = Some (''abc123'',
                   emit (Print (MsgCodeCaptured ''abc123''))
                     (emit (Respond 200 ''Authorization successful! You can close this tab.'')
                        (w\<lparr>auth_code := Some ''abc123''\<rparr>)))"
proof -
  have "do_GET env granted_path w
      = (Inr (), emit (Print (MsgCodeCaptured ''abc123''))
           (emit (Respond 200 ''Authorization successful! You can close this tab.'')
              (w\<lparr>auth_code := Some ''abc123''\<rparr>)))"
    using do_GET_code [OF granted_query granted_components, of env w]
    by (simp add: strip_abc123)
  with wait_for_code_returns [OF assms, of "''abc123''"] show ?thesis by simp
qed

lemma granted_run:
  assumes "inbound env = Some (k, granted_path)"
  shows "wait_for_code env 0 (begin_auth env fresh_world) = Some (''abc123'', after_grant env)"
  unfolding after_grant_def
  by (rule granted_wait [OF assms]) (simp add: fresh_world_def)

lemma after_grant_trace:
  "trace (after_grant env) =
     [StartThread, Print MsgWaiting, Print MsgOpening, OpenBrowser (authorization_url env),
      Respond 200 ''Authorization successful! You can close this tab.'',
      Print (MsgCodeCaptured ''abc123'')]"
  by (simp add: after_grant_def begin_auth_trace fresh_world_def)

lemma after_grant_files: "files (after_grant env) = Map.empty"
  by (simp add: after_grant_def fresh_world_def)

lemma unconfigured_url:
  assumes "environ env = Map.empty"
  shows "authorization_url env = ''https://www.reddit.com/api/v1/authorize?client_id=&response_type=code&state=RANDOM_STRING&redirect_uri=&duration=permanent&scope=identity history read save''"
  by (simp add: authorization_url_def unconfigured [OF assms])

lemma unconfigured_post:
  assumes "environ env = Map.empty"
  shows "encode (CLIENT_ID env @ '':'' @ CLIENT_SECRET env) = Inr '':''"
    and "token_headers env (b64encode '':'') =
           [(''Authorization'', ''Basic Og==''), (''User-Agent'', []),
            (''Content-Type'', ''application/x-www-form-urlencoded'')]"
    and "token_data env code =
           [(''grant_type'', ''authorization_code''), (''code'', code), (''redirect_uri'', [])]"
  by (simp_all add: unconfigured [OF assms] encode_colon b64encode_colon token_headers_def
        token_data_def del: b64encode.simps)

lemma invalid_grant_detail:
  "error_detail_of \<lparr>status_code = s, resp_text = invalid_grant_body\<rparr>
     = ErrorJson (JStr ''invalid_grant'') None"
  unfolding invalid_grant_body_def by code_simp

lemma tokens_body_parsed:
  "json_loads tokens_body
     = Inr (JObj [(''refresh_token'', JStr ''r_xyz''), (''access_token'', JStr ''a_1''),
                  (''expires_in'', JInt 3600)])"
  unfolding tokens_body_def by code_simp

lemma no_refresh_body_parsed:
  "json_loads no_refresh_body
     = Inr (JObj [(''access_token'', JStr ''a_1''), (''expires_in'', JInt 3600)])"
  unfolding no_refresh_body_def by code_simp

lemma dumps_r_xyz:
  \<open>json_dumps f (JObj [(''refresh_token'', JStr ''r_xyz'')]) = ''{"refresh_token": "r_xyz"}''\<close>
  by code_simp

lemma in_trace_append: "e \<in> set (trace w) \<Longrightarrow> trace w' = trace w @ es \<Longrightarrow> e \<in> set (trace w')"
  by simp

lemma py_getitem_error:
  "py_getitem tokens k = Inl e \<Longrightarrow> e = KeyError k \<or> e = TypeError"
  by (cases tokens) (auto split: option.splits)

lemma no_refresh_item:
  "py_getitem (JObj [(''access_token'', JStr ''a_1''), (''expires_in'', JInt 3600)])
     ''refresh_token'' = Inl (KeyError ''refresh_token'')"
  by simp

lemma configured_env_simps [simp]:
  "inbound configured_env = Some (2, granted_path)"
  "environ configured_env ''CLIENT_ID'' = Some '' my_id ''"
  "environ configured_env ''REDIRECT_URI'' = Some ''http://localhost:8080 ''"
  by (simp_all add: configured_env_def)

lemma strip_my_id: "strip '' my_id '' = ''my_id''"
  by code_simp

lemma strip_redirect: "strip ''http://localhost:8080 '' = ''http://localhost:8080''"
  by code_simp

lemma configured_constants:
  "CLIENT_ID configured_env = ''my_id''"
  "REDIRECT_URI configured_env = ''http://localhost:8080''"
  "CLIENT_ID (configured_env\<lparr>inbound := None\<rparr>) = ''my_id''"
  "REDIRECT_URI (configured_env\<lparr>inbound := None\<rparr>) = ''http://localhost:8080''"
  by (simp_all add: CLIENT_ID_def REDIRECT_URI_def getenv_def strip_my_id strip_redirect)

lemma surrogate_bytes:
  "char_of (237 :: nat) = CHR 0xED" "char_of (160 :: nat) = CHR 0xA0"
  "char_of (128 :: nat) = CHR 0x80"
  by code_simp+

lemma surrogate_encoded: "utf8_encode 0xD800 = [CHR 0xED, CHR 0xA0, CHR 0x80]"
  by (simp add: utf8_encode_def surrogate_bytes)

lemma uXXXX_d800: "uXXXX (''d800'' @ s) = Some 0xD800"
  by (simp add: hexval_def code_of_def)

lemma surrogate_string:
  "scanstring ([CHR 0x5C] @ ''ud800'' @ [CHR 0x22] @ s) acc
     = Some (acc @ [CHR 0xED, CHR 0xA0, CHR 0x80], s)"
  using uXXXX_d800 [of "CHR 0x22 # s"]
  by (simp add: surrogate_encoded)

lemma surrogate_body_lexed:
  "lex surrogate_body =
     Some [TLBrace, TVal (JStr ''error''), TColon,
           TVal (JStr [CHR 0xED, CHR 0xA0, CHR 0x80]), TRBrace]"
  using surrogate_string [of "''}''" "[]"]
  by (simp add: surrogate_body_def is_json_ws_def code_of_def)

lemma surrogate_body_parsed:
  "json_loads surrogate_body = Inr (JObj [(''error'', JStr [CHR 0xED, CHR 0xA0, CHR 0x80])])"
  by (simp add: json_loads_def surrogate_body_lexed)

lemma surrogate_not_encodable: "utf8_decode False [CHR 0xED, CHR 0xA0, CHR 0x80] = None"
  by code_simp

lemma surrogate_detail_unprintable:
  "\<not> detail_encodable (ErrorJson (JStr [CHR 0xED, CHR 0xA0, CHR 0x80]) None)"
  using surrogate_not_encodable by (simp del: utf8_decode.simps)

lemma surrogate_detail:
  "error_detail_of \<lparr>status_code = s, resp_text = surrogate_body\<rparr>
     = ErrorJson (JStr [CHR 0xED, CHR 0xA0, CHR 0x80]) None"
  by (simp add: error_detail_of_def surrogate_body_parsed)

lemma invalid_grant_encodable: "detail_encodable (ErrorJson (JStr ''invalid_grant'') None)"
  by code_simp



text \<open>
  A failed exchange whose report can be printed: the run returns normally after the
  report, with the causes of a 401 for that status only, and writes no file.
\<close>

lemma get_tokens_failed_exchange:
  assumes "load_existing_tokens w = (Inr False, w1)"
    and "wait_for_code env 0 (begin_auth env w1) = Some (code, w2)"
    and "encode (CLIENT_ID env @ '':'' @ CLIENT_SECRET env) = Inr auth_bytes"
    and "http_post env token_url (token_headers env (b64encode auth_bytes)) (token_data env code)
           = Inr response"
    and "status_code response \<noteq> 200"
    and "detail_encodable (error_detail_of response)"
  shows "\<exists>w'. get_tokens env w = Some (Inr (), w')
           \<and> files w' = files w
           \<and> trace w' =
               trace w2
               @ [Post token_url (token_headers env (b64encode auth_bytes)) (token_data env code),
                  Print (MsgAuthFailed (status_code response) (error_detail_of response))]
               @ (if status_code response = 401 then [Print Msg401Causes] else [])"
proof -
  have "get_tokens env w = Some (token_exchange env code w2)" and "files w2 = files w"
    using get_tokens_run [OF assms(1,2)] by simp_all
  then show ?thesis
    using token_exchange_failed [OF assms(3-6), of w2] by simp
qed

text \<open>Whether or not the report can be printed, a failed exchange writes no file.\<close>

lemma get_tokens_failed_exchange_files:
  assumes "load_existing_tokens w = (Inr False, w1)"
    and "wait_for_code env 0 (begin_auth env w1) = Some (code, w2)"
    and "encode (CLIENT_ID env @ '':'' @ CLIENT_SECRET env) = Inr auth_bytes"
    and "http_post env token_url (token_headers env (b64encode auth_bytes)) (token_data env code)
           = Inr response"
    and "status_code response \<noteq> 200"
  shows "\<exists>r w'. get_tokens env w = Some (r, w') \<and> files w' = files w"
proof -
  have "get_tokens env w = Some (token_exchange env code w2)" and "files w2 = files w"
    using get_tokens_run [OF assms(1,2)] by simp_all
  then show ?thesis
    using token_exchange_failed_files [OF assms(3-5), of w2]
    by (cases "token_exchange env code w2") auto
qed

section \<open>The claims\<close>

subsection \<open>The credential store\<close>

text \<open>
  Claim C1. When \<^verbatim>\<open>tokens.json\<close> exists and parses as a JSON object with a
  \<^verbatim>\<open>refresh_token\<close> field, \<^verbatim>\<open>get_tokens\<close> returns right after the check of the store: its
  only effect is the message that a token exists (no thread, no browser, no POST), the
  files and \<^verbatim>\<open>auth_code\<close> are as before, and a further run, in any environment, does the
  same.
\<close>

theorem get_tokens_idempotent:
  assumes "files w TOKEN_FILE = Some content"
    and "json_load content = Inr (JObj d)"
    and "''refresh_token'' \<in> set (map fst d)"
  shows "\<exists>w'. get_tokens env w = Some (Inr (), w')
           \<and> files w' = files w \<and> auth_code w' = auth_code w
           \<and> trace w' = trace w @ [Print MsgTokenExists]
           \<and> (\<exists>w''. get_tokens env' w' = Some (Inr (), w'')
                  \<and> files w'' = files w \<and> trace w'' = trace w' @ [Print MsgTokenExists])"
proof -
  let ?w' = "emit (Print MsgTokenExists) w"
  have found: "py_in ''refresh_token'' (JObj d) = Inr True"
    using assms(3) by simp
  have first: "get_tokens env w = Some (Inr (), ?w')"
    by (rule get_tokens_found) (rule load_existing_tokens_found [OF assms(1,2) found])
  have "files ?w' TOKEN_FILE = Some content"
    using assms(1) by simp
  then have second: "get_tokens env' ?w' = Some (Inr (), emit (Print MsgTokenExists) ?w')"
    by (intro get_tokens_found load_existing_tokens_found [OF _ assms(2) found])
  from first second show ?thesis by simp
qed

text \<open>The record \<^verbatim>\<open>{"refresh_token": "r_xyz"}\<close> is such a file.\<close>

theorem get_tokens_idempotent_witness:
  "files (world_with stored_record) TOKEN_FILE = Some stored_record
   \<and> json_load stored_record = Inr (JObj [(''refresh_token'', JStr ''r_xyz'')])
   \<and> (\<exists>w'. get_tokens silent_env (world_with stored_record) = Some (Inr (), w')
         \<and> files w' = files (world_with stored_record)
         \<and> trace w' = [Print MsgTokenExists])"
  using get_tokens_idempotent [of "world_with stored_record" stored_record
      "[(''refresh_token'', JStr ''r_xyz'')]" silent_env silent_env]
  by (auto simp: stored_record_parsed world_with_def)




text \<open>
  Claim C3 at the record \<^verbatim>\<open>null\<close>, which parses and has no \<^verbatim>\<open>refresh_token\<close> field: the
  test \<^verbatim>\<open>"refresh_token" in tokens\<close> raises \<open>TypeError\<close>, which the \<^verbatim>\<open>except\<close> clause for
  \<open>JSONDecodeError\<close> and \<open>ValueError\<close> does not catch, so that the exception leaves
  \<^verbatim>\<open>load_existing_tokens\<close>.
\<close>

theorem load_existing_tokens_null_TypeError:
  "load_existing_tokens (world_with ''null'') = (Inl TypeError, world_with ''null'')"
  by (simp add: load_existing_tokens_def world_with_def null_parsed)

subsection \<open>The callback listener and the wait for the code\<close>

text \<open>
  Claim C4, as the code has it. No token is stored, \<^verbatim>\<open>auth_code\<close> is \<^verbatim>\<open>None\<close> and the
  listener serves \<^verbatim>\<open>GET path\<close>, whose query \<^verbatim>\<open>urlparse\<close> can read. When the query has no
  \<^verbatim>\<open>code\<close> parameter, \<^verbatim>\<open>do_GET\<close> answers 400 and leaves \<^verbatim>\<open>auth_code\<close> as it is, and
  \<^verbatim>\<open>get_tokens\<close> never returns: there is no failure with which the flow ends. When the
  request is \<^verbatim>\<open>GET /?code=abc123&state=RANDOM_STRING\<close>, the listener answers 200 and the
  wait of \<^verbatim>\<open>get_tokens\<close> ends with the code \<^verbatim>\<open>abc123\<close>.
\<close>

theorem callback_listener_outcomes:
  assumes "load_existing_tokens w = (Inr False, w1)"
    and "auth_code w = None"
    and "inbound env = Some (k, path)"
    and "urlparse_query (check_netloc env) path = Inr query"
  shows "(map_of (parse_qs query) ''code'' = None \<longrightarrow>
            do_GET env path w2
              = (Inr (), emit (Respond 400 ''Error: Authorization code not found.'') w2)
            \<and> get_tokens env w = None)
       \<and> (path = ''/?code=abc123&state=RANDOM_STRING'' \<longrightarrow>
            map_of (parse_qs query) ''code'' = Some [''abc123'']
            \<and> (\<exists>w3. wait_for_code env 0 (begin_auth env w1) = Some (''abc123'', w3)
                  \<and> trace w3 = trace (begin_auth env w1)
                      @ [Respond 200 ''Authorization successful! You can close this tab.'',
                         Print (MsgCodeCaptured ''abc123'')]))"
proof (intro conjI impI)
  assume none: "map_of (parse_qs query) ''code'' = None"
  show "do_GET env path w2
          = (Inr (), emit (Respond 400 ''Error: Authorization code not found.'') w2)"
    by (rule do_GET_no_code [OF assms(4) none])
  show "get_tokens env w = None"
    by (rule get_tokens_no_code [OF assms none])
next
  assume p: "path = ''/?code=abc123&state=RANDOM_STRING''"
  with assms(4) granted_query [of "check_netloc env"]
  have q: "query = ''code=abc123&state=RANDOM_STRING''" by (simp add: granted_path_def)
  then show c: "map_of (parse_qs query) ''code'' = Some [''abc123'']"
    by (simp add: granted_components)
  let ?w = "begin_auth env w1"
  have none: "auth_code ?w = None"
    using assms(1,2) load_existing_tokens_auth_code [of w] by simp
  have get: "do_GET env path ?w
      = (Inr (), emit (Print (MsgCodeCaptured ''abc123''))
           (emit (Respond 200 ''Authorization successful! You can close this tab.'')
              (?w\<lparr>auth_code := Some ''abc123''\<rparr>)))"
    using do_GET_code [OF assms(4) c] by (simp add: strip_abc123)
  then have "wait_for_code env 0 ?w = Some (''abc123'', snd (do_GET env path ?w))"
    by (intro wait_for_code_returns [OF assms(3) none]) simp
  with get show "\<exists>w3. wait_for_code env 0 ?w = Some (''abc123'', w3)
                  \<and> trace w3 = trace ?w
                      @ [Respond 200 ''Authorization successful! You can close this tab.'',
                         Print (MsgCodeCaptured ''abc123'')]"
    by simp
qed

text \<open>
  Both cases happen: \<^verbatim>\<open>GET /?error=access_denied\<close> in \<open>denied_env\<close> and
  \<^verbatim>\<open>GET /?code=abc123&state=RANDOM_STRING\<close> in \<open>granted_env\<close>.
\<close>

theorem callback_listener_outcomes_witness:
  "load_existing_tokens fresh_world = (Inr False, fresh_world)
   \<and> auth_code fresh_world = None
   \<and> inbound denied_env = Some (0, ''/?error=access_denied'')
   \<and> urlparse_query (check_netloc denied_env) ''/?error=access_denied'' = Inr ''error=access_denied''
   \<and> map_of (parse_qs ''error=access_denied'') ''code'' = None
   \<and> do_GET denied_env ''/?error=access_denied'' fresh_world
        = (Inr (), emit (Respond 400 ''Error: Authorization code not found.'') fresh_world)
   \<and> get_tokens denied_env fresh_world = None
   \<and> inbound granted_env = Some (2, ''/?code=abc123&state=RANDOM_STRING'')
   \<and> urlparse_query (check_netloc granted_env) ''/?code=abc123&state=RANDOM_STRING''
        = Inr ''code=abc123&state=RANDOM_STRING''
   \<and> (\<exists>w3. wait_for_code granted_env 0 (begin_auth granted_env fresh_world) = Some (''abc123'', w3)
         \<and> trace w3 = trace (begin_auth granted_env fresh_world)
             @ [Respond 200 ''Authorization successful! You can close this tab.'',
                Print (MsgCodeCaptured ''abc123'')])"
  using callback_listener_outcomes [of fresh_world fresh_world denied_env 0
      "''/?error=access_denied''" "''error=access_denied''" fresh_world]
    callback_listener_outcomes [of fresh_world fresh_world granted_env 2
      "''/?code=abc123&state=RANDOM_STRING''" "''code=abc123&state=RANDOM_STRING''" fresh_world]
    granted_query [of "\<lambda>netloc. True"]
  by (simp add: fresh_world_load denied_query denied_components granted_path_def)
     (simp add: fresh_world_def)

text \<open>
  Claim C4 as stated fails: after \<^verbatim>\<open>GET /?error=access_denied\<close> the flow does not end
  with a failure \<open>MissingCode\<close>; \<^verbatim>\<open>get_tokens\<close> does not return at all.
\<close>

theorem missing_code_never_resolves_counterexample:
  "get_tokens denied_env fresh_world = None"
  by (rule get_tokens_no_code [OF fresh_world_load _ _ denied_query denied_components])
     (simp_all add: fresh_world_def)

text \<open>
  Claim C5, as the code has it. When no token is stored and no request ever reaches
  \<^verbatim>\<open>do_GET\<close>, \<^verbatim>\<open>get_tokens\<close> never returns: the wait for \<^verbatim>\<open>auth_code\<close> has no
  timeout.
\<close>

theorem no_timeout:
  assumes "load_existing_tokens w = (Inr False, w1)"
    and "auth_code w = None"
    and "inbound env = None"
  shows "get_tokens env w = None"
  using assms by (rule get_tokens_no_request)

text \<open>\<open>silent_env\<close> with no file \<^verbatim>\<open>tokens.json\<close> is such a run.\<close>

theorem no_timeout_witness:
  "load_existing_tokens fresh_world = (Inr False, fresh_world)
   \<and> auth_code fresh_world = None \<and> inbound silent_env = None
   \<and> get_tokens silent_env fresh_world = None"
  using no_timeout [of fresh_world fresh_world silent_env]
  by (simp add: fresh_world_load) (simp add: fresh_world_def silent_env_def)

text \<open>
  Claim C5 as stated fails: with no inbound redirect, the flow does not end with a
  failure \<open>Timeout\<close>; it does not end.
\<close>

theorem no_timeout_counterexample:
  "get_tokens silent_env fresh_world = None"
  by (rule get_tokens_no_request [OF fresh_world_load]) (simp_all add: fresh_world_def silent_env_def)

subsection \<open>The orchestrator\<close>

text \<open>
  Claim C6, as the code has it. \<^verbatim>\<open>get_tokens\<close> has no check of the configuration. For
  every configuration, the four fields empty or not, when no token is stored and the
  browser comes back with a code, the run opens the authorization URL made of the
  fields as they are and issues the POST of the token exchange (provided the
  credentials can be encoded for the header).
\<close>

theorem no_configuration_check:
  assumes "load_existing_tokens w = (Inr False, w1)"
    and "auth_code w = None"
    and "inbound env = Some (k, path)"
    and "urlparse_query (check_netloc env) path = Inr query"
    and "map_of (parse_qs query) ''code'' = Some (v # vs)"
    and "encode (CLIENT_ID env @ '':'' @ CLIENT_SECRET env) = Inr auth_bytes"
  shows "\<exists>r w'. get_tokens env w = Some (r, w')
           \<and> OpenBrowser (authorization_url env) \<in> set (trace w')
           \<and> Post token_url (token_headers env (b64encode auth_bytes)) (token_data env (strip v))
                \<in> set (trace w')"
proof -
  let ?w = "begin_auth env w1"
  let ?w2 = "snd (do_GET env path ?w)"
  have none: "auth_code ?w = None"
    using assms(1,2) load_existing_tokens_auth_code [of w] by simp
  have get: "do_GET env path ?w
      = (Inr (), emit (Print (MsgCodeCaptured (strip v)))
           (emit (Respond 200 ''Authorization successful! You can close this tab.'')
              (?w\<lparr>auth_code := Some (strip v)\<rparr>)))"
    by (rule do_GET_code [OF assms(4,5)])
  then have wait: "wait_for_code env 0 ?w = Some (strip v, ?w2)"
    by (intro wait_for_code_returns [OF assms(3) none]) simp
  have run: "get_tokens env w = Some (token_exchange env (strip v) ?w2)"
    using assms(1) wait by (simp add: get_tokens_not_found)
  have browser: "OpenBrowser (authorization_url env) \<in> set (trace ?w2)"
    using get by (simp add: begin_auth_trace)
  obtain es where post: "trace (snd (token_exchange env (strip v) ?w2)) =
      trace ?w2 @ Post token_url (token_headers env (b64encode auth_bytes)) (token_data env (strip v)) # es"
    using token_exchange_posts [OF assms(6)] by blast
  from browser post
  have "OpenBrowser (authorization_url env) \<in> set (trace (snd (token_exchange env (strip v) ?w2)))"
    and "Post token_url (token_headers env (b64encode auth_bytes)) (token_data env (strip v))
           \<in> set (trace (snd (token_exchange env (strip v) ?w2)))"
    by simp_all
  with run show ?thesis
    by (cases "token_exchange env (strip v) ?w2") auto
qed

text \<open>
  The case the claim is about: in \<open>answer 401 invalid_grant_body\<close> no variable is set, so
  that the four fields are empty after trimming.
\<close>

theorem no_configuration_check_witness:
  "CLIENT_ID (answer 401 invalid_grant_body) = [] \<and> CLIENT_SECRET (answer 401 invalid_grant_body) = []
   \<and> REDIRECT_URI (answer 401 invalid_grant_body) = [] \<and> USER_AGENT (answer 401 invalid_grant_body) = []
   \<and> load_existing_tokens fresh_world = (Inr False, fresh_world)
   \<and> auth_code fresh_world = None
   \<and> inbound (answer 401 invalid_grant_body) = Some (2, granted_path)
   \<and> urlparse_query (check_netloc (answer 401 invalid_grant_body)) granted_path
        = Inr ''code=abc123&state=RANDOM_STRING''
   \<and> map_of (parse_qs ''code=abc123&state=RANDOM_STRING'') ''code'' = Some [''abc123'']
   \<and> encode (CLIENT_ID (answer 401 invalid_grant_body) @ '':''
               @ CLIENT_SECRET (answer 401 invalid_grant_body)) = Inr '':''
   \<and> (\<exists>r w'. get_tokens (answer 401 invalid_grant_body) fresh_world = Some (r, w')
         \<and> OpenBrowser (authorization_url (answer 401 invalid_grant_body)) \<in> set (trace w')
         \<and> Post token_url (token_headers (answer 401 invalid_grant_body) ''Og=='')
              (token_data (answer 401 invalid_grant_body) ''abc123'') \<in> set (trace w'))"
  using no_configuration_check [of fresh_world fresh_world "answer 401 invalid_grant_body" 2
      granted_path "''code=abc123&state=RANDOM_STRING''" "''abc123''" "[]" "'':''"]
  by (simp add: fresh_world_load granted_query granted_components unconfigured encode_colon
        b64encode_colon strip_abc123 del: b64encode.simps)
     (simp add: fresh_world_def)

text \<open>
  Claim C6 as stated fails: with the four fields empty the run does not fail fast. It
  opens the browser on a URL with an empty \<^verbatim>\<open>client_id\<close> and an empty \<^verbatim>\<open>redirect_uri\<close>,
  sends the POST with the credentials \<^verbatim>\<open>":"\<close>, prints the provider's refusal and returns
  normally.
\<close>

theorem unconfigured_run_counterexample:
  "CLIENT_ID (answer 401 invalid_grant_body) = [] \<and> CLIENT_SECRET (answer 401 invalid_grant_body) = []
   \<and> REDIRECT_URI (answer 401 invalid_grant_body) = [] \<and> USER_AGENT (answer 401 invalid_grant_body) = []
   \<and> map_option fst (get_tokens (answer 401 invalid_grant_body) fresh_world) = Some (Inr ())
   \<and> map_option (trace \<circ> snd) (get_tokens (answer 401 invalid_grant_body) fresh_world) =
       Some [StartThread, Print MsgWaiting, Print MsgOpening,
             OpenBrowser ''https://www.reddit.com/api/v1/authorize?client_id=&response_type=code&state=RANDOM_STRING&redirect_uri=&duration=permanent&scope=identity history read save'',
             Respond 200 ''Authorization successful! You can close this tab.'',
             Print (MsgCodeCaptured ''abc123''),
             Post ''https://www.reddit.com/api/v1/access_token''
               [(''Authorization'', ''Basic Og==''), (''User-Agent'', []),
                (''Content-Type'', ''application/x-www-form-urlencoded'')]
               [(''grant_type'', ''authorization_code''), (''code'', ''abc123''),
                (''redirect_uri'', [])],
             Print (MsgAuthFailed 401 (ErrorJson (JStr ''invalid_grant'') None)),
             Print Msg401Causes]"
proof -
  let ?e = "answer 401 invalid_grant_body"
  have e: "environ ?e = Map.empty" by simp
  have run: "get_tokens ?e fresh_world = Some (token_exchange ?e ''abc123'' (after_grant ?e))"
    by (rule get_tokens_run(1) [OF fresh_world_load granted_run]) simp
  have "token_exchange ?e ''abc123'' (after_grant ?e) =
          (Inr (),
           emit (Print Msg401Causes)
             (emit (Print (MsgAuthFailed 401 (ErrorJson (JStr ''invalid_grant'') None)))
                (emit (Post token_url (token_headers ?e (b64encode '':'')) (token_data ?e ''abc123''))
                   (after_grant ?e))))"
    using token_exchange_failed [OF unconfigured_post(1) [OF e],
        where code = "''abc123''" and w = "after_grant ?e"
          and response = "\<lparr>status_code = 401, resp_text = invalid_grant_body\<rparr>"]
    by (simp add: invalid_grant_detail invalid_grant_encodable
          del: b64encode.simps detail_encodable.simps)
  with run show ?thesis
    by (simp add: unconfigured [OF e] unconfigured_post [OF e] unconfigured_url [OF e]
          after_grant_trace token_url_def del: b64encode.simps)
qed

text \<open>
  Claim C7, as the code has it. When the token endpoint answers 200 with a JSON body
  from which \<^verbatim>\<open>tokens["refresh_token"]\<close> cannot be read, \<^verbatim>\<open>get_tokens\<close> ends with that
  exception, uncaught: \<open>KeyError\<close> for an object without the field (\<open>TypeError\<close> for a
  body that is not an object). Nothing has been written: the files are those of the
  start.
\<close>

theorem missing_refresh_token_raises:
  assumes "load_existing_tokens w = (Inr False, w1)"
    and "wait_for_code env 0 (begin_auth env w1) = Some (code, w2)"
    and "encode (CLIENT_ID env @ '':'' @ CLIENT_SECRET env) = Inr auth_bytes"
    and "http_post env token_url (token_headers env (b64encode auth_bytes)) (token_data env code)
           = Inr response"
    and "status_code response = 200"
    and "json_loads (resp_text response) = Inr tokens"
    and "py_getitem tokens ''refresh_token'' = Inl e"
  shows "get_tokens env w =
           Some (Inl e, emit (Post token_url (token_headers env (b64encode auth_bytes))
                                (token_data env code)) w2)
         \<and> files w2 = files w
         \<and> (e = KeyError ''refresh_token'' \<or> e = TypeError)
         \<and> (\<forall>d. tokens = JObj d \<longrightarrow> e = KeyError ''refresh_token'')"
proof -
  have "get_tokens env w = Some (token_exchange env code w2)" and "files w2 = files w"
    using get_tokens_run [OF assms(1,2)] by simp_all
  moreover have "\<forall>d. tokens = JObj d \<longrightarrow> e = KeyError ''refresh_token''"
    using assms(7) by (auto split: option.splits)
  ultimately show ?thesis
    using token_exchange_no_item [OF assms(3-7)] py_getitem_error [OF assms(7)] by simp
qed

text \<open>The body \<^verbatim>\<open>{"access_token":"a_1","expires_in":3600}\<close> is such an answer.\<close>

theorem missing_refresh_token_raises_witness:
  "load_existing_tokens fresh_world = (Inr False, fresh_world)
   \<and> wait_for_code (answer 200 no_refresh_body) 0 (begin_auth (answer 200 no_refresh_body) fresh_world)
       = Some (''abc123'', after_grant (answer 200 no_refresh_body))
   \<and> json_loads no_refresh_body
       = Inr (JObj [(''access_token'', JStr ''a_1''), (''expires_in'', JInt 3600)])
   \<and> get_tokens (answer 200 no_refresh_body) fresh_world =
       Some (Inl (KeyError ''refresh_token''),
             emit (Post token_url (token_headers (answer 200 no_refresh_body) ''Og=='')
                     (token_data (answer 200 no_refresh_body) ''abc123''))
               (after_grant (answer 200 no_refresh_body)))
   \<and> files (after_grant (answer 200 no_refresh_body)) = files fresh_world"
proof -
  let ?e = "answer 200 no_refresh_body"
  have e: "environ ?e = Map.empty" by simp
  have run: "wait_for_code ?e 0 (begin_auth ?e fresh_world) = Some (''abc123'', after_grant ?e)"
    by (rule granted_run) simp
  show ?thesis
    using missing_refresh_token_raises [OF fresh_world_load run unconfigured_post(1) [OF e],
        where response = "\<lparr>status_code = 200, resp_text = no_refresh_body\<rparr>"
          and tokens = "JObj [(''access_token'', JStr ''a_1''), (''expires_in'', JInt 3600)]"
          and e = "KeyError ''refresh_token''"]
    by (simp add: fresh_world_load run no_refresh_body_parsed b64encode_colon
          del: b64encode.simps)
qed

text \<open>
  Claim C7 as stated fails: for that answer the run does not end with a classified
  failure; the exception \<^verbatim>\<open>KeyError('refresh_token')\<close> leaves \<^verbatim>\<open>get_tokens\<close>.
\<close>

theorem missing_refresh_token_counterexample:
  "map_option fst (get_tokens (answer 200 no_refresh_body) fresh_world)
     = Some (Inl (KeyError ''refresh_token''))"
proof -
  let ?e = "answer 200 no_refresh_body"
  have e: "environ ?e = Map.empty" by simp
  have "get_tokens ?e fresh_world = Some (token_exchange ?e ''abc123'' (after_grant ?e))"
    by (rule get_tokens_run(1) [OF fresh_world_load granted_run]) simp
  moreover have "fst (token_exchange ?e ''abc123'' (after_grant ?e)) = Inl (KeyError ''refresh_token'')"
    using token_exchange_no_item [OF unconfigured_post(1) [OF e],
        where response = "\<lparr>status_code = 200, resp_text = no_refresh_body\<rparr>"
          and code = "''abc123''" and w = "after_grant ?e"
          and tokens = "JObj [(''access_token'', JStr ''a_1''), (''expires_in'', JInt 3600)]"
          and e = "KeyError ''refresh_token''"]
    by (simp add: no_refresh_body_parsed)
  ultimately show ?thesis by simp
qed

text \<open>
  Claim C8 at the answer 401 with the body \<^verbatim>\<open>{"error":"\ud800"}\<close>, in a run with no
  stored token and the code \<^verbatim>\<open>abc123\<close>. The detail of the report is the error of the body,
  a string with a surrogate, and the \<^verbatim>\<open>print\<close> of the report raises
  \<open>UnicodeEncodeError\<close> outside any \<^verbatim>\<open>try\<close>: \<^verbatim>\<open>get_tokens\<close> ends with the exception, and after
  the POST nothing is printed, neither the failure nor the causes of a 401. No file is
  written.
\<close>

theorem failed_exchange_report_raises:
  "map_option fst (get_tokens (answer 401 surrogate_body) fresh_world)
     = Some (Inl UnicodeEncodeError)
   \<and> map_option (trace \<circ> snd) (get_tokens (answer 401 surrogate_body) fresh_world) =
       Some [StartThread, Print MsgWaiting, Print MsgOpening,
             OpenBrowser ''https://www.reddit.com/api/v1/authorize?client_id=&response_type=code&state=RANDOM_STRING&redirect_uri=&duration=permanent&scope=identity history read save'',
             Respond 200 ''Authorization successful! You can close this tab.'',
             Print (MsgCodeCaptured ''abc123''),
             Post ''https://www.reddit.com/api/v1/access_token''
               [(''Authorization'', ''Basic Og==''), (''User-Agent'', []),
                (''Content-Type'', ''application/x-www-form-urlencoded'')]
               [(''grant_type'', ''authorization_code''), (''code'', ''abc123''),
                (''redirect_uri'', [])]]
   \<and> map_option (files \<circ> snd) (get_tokens (answer 401 surrogate_body) fresh_world)
       = Some (files fresh_world)"
proof -
  let ?e = "answer 401 surrogate_body"
  have e: "environ ?e = Map.empty" by simp
  have run: "get_tokens ?e fresh_world = Some (token_exchange ?e ''abc123'' (after_grant ?e))"
    by (rule get_tokens_run(1) [OF fresh_world_load granted_run]) simp
  have "token_exchange ?e ''abc123'' (after_grant ?e) =
          (Inl UnicodeEncodeError,
           emit (Post token_url (token_headers ?e (b64encode '':'')) (token_data ?e ''abc123''))
             (after_grant ?e))"
    using token_exchange_unprintable [OF unconfigured_post(1) [OF e],
        where code = "''abc123''" and w = "after_grant ?e"
          and response = "\<lparr>status_code = 401, resp_text = surrogate_body\<rparr>"]
    by (simp add: surrogate_detail surrogate_detail_unprintable
          del: b64encode.simps detail_encodable.simps)
  with run show ?thesis
    by (simp add: unconfigured_post [OF e] unconfigured_url [OF e] after_grant_trace
          after_grant_files token_url_def fresh_world_def del: b64encode.simps)
qed

text \<open>
  Claim C9. When the token endpoint answers 200 with a JSON object whose
  \<^verbatim>\<open>refresh_token\<close> is \<^verbatim>\<open>"r_xyz"\<close>, whatever its other fields, \<^verbatim>\<open>get_tokens\<close> returns
  normally and the only change of the files is that \<^verbatim>\<open>tokens.json\<close> holds exactly
  \<^verbatim>\<open>{"refresh_token": "r_xyz"}\<close>.
\<close>

theorem refresh_token_persisted:
  assumes "load_existing_tokens w = (Inr False, w1)"
    and "wait_for_code env 0 (begin_auth env w1) = Some (code, w2)"
    and "encode (CLIENT_ID env @ '':'' @ CLIENT_SECRET env) = Inr auth_bytes"
    and "http_post env token_url (token_headers env (b64encode auth_bytes)) (token_data env code)
           = Inr response"
    and "status_code response = 200"
    and "json_loads (resp_text response) = Inr (JObj d)"
    and "map_of d ''refresh_token'' = Some (JStr ''r_xyz'')"
  shows \<open>\<exists>w'. get_tokens env w = Some (Inr (), w')
           \<and> files w' = (files w)(TOKEN_FILE \<mapsto> ''{"refresh_token": "r_xyz"}'')\<close>
proof -
  have "get_tokens env w = Some (token_exchange env code w2)" and "files w2 = files w"
    using get_tokens_run [OF assms(1,2)] by simp_all
  moreover have "py_getitem (JObj d) ''refresh_token'' = Inr (JStr ''r_xyz'')"
    using assms(7) by simp
  ultimately show ?thesis
    using token_exchange_ok [OF assms(3-6), of "JStr ''r_xyz''" w2]
    by (simp add: dumps_r_xyz del: json_dumps.simps)
qed

text \<open>
  The answer with the body
  \<^verbatim>\<open>{"refresh_token":"r_xyz","access_token":"a_1","expires_in":3600}\<close>.
\<close>

theorem refresh_token_persisted_witness:
  \<open>load_existing_tokens fresh_world = (Inr False, fresh_world)
   \<and> wait_for_code (answer 200 tokens_body) 0 (begin_auth (answer 200 tokens_body) fresh_world)
       = Some (''abc123'', after_grant (answer 200 tokens_body))
   \<and> json_loads tokens_body
       = Inr (JObj [(''refresh_token'', JStr ''r_xyz''), (''access_token'', JStr ''a_1''),
                    (''expires_in'', JInt 3600)])
   \<and> (\<exists>w'. get_tokens (answer 200 tokens_body) fresh_world = Some (Inr (), w')
         \<and> files w' = [TOKEN_FILE \<mapsto> ''{"refresh_token": "r_xyz"}''])\<close>
proof -
  let ?e = "answer 200 tokens_body"
  have e: "environ ?e = Map.empty" by simp
  have run: "wait_for_code ?e 0 (begin_auth ?e fresh_world) = Some (''abc123'', after_grant ?e)"
    by (rule granted_run) simp
  show ?thesis
    using refresh_token_persisted [OF fresh_world_load run unconfigured_post(1) [OF e],
        where response = "\<lparr>status_code = 200, resp_text = tokens_body\<rparr>"
          and d = "[(''refresh_token'', JStr ''r_xyz''), (''access_token'', JStr ''a_1''),
                    (''expires_in'', JInt 3600)]"]
    by (simp add: fresh_world_load run tokens_body_parsed)
       (simp add: fresh_world_def)
qed

text \<open>
  Claim C10. When no token is stored, \<^verbatim>\<open>get_tokens\<close> opens the browser on the URL in
  which \<^verbatim>\<open>state\<close> is the constant \<^verbatim>\<open>RANDOM_STRING\<close>; a run that returns has opened this URL
  and no other; and the URL is the same for any two environments with the same
  \<^verbatim>\<open>CLIENT_ID\<close> and \<^verbatim>\<open>REDIRECT_URI\<close>, whatever else differs between the runs.
\<close>

theorem state_parameter_constant:
  assumes "load_existing_tokens w = (Inr False, w1)"
  shows "trace (begin_auth env w1) =
           trace w1
           @ [StartThread, Print MsgWaiting, Print MsgOpening,
              OpenBrowser (''https://www.reddit.com/api/v1/authorize?client_id='' @ CLIENT_ID env
                @ ''&response_type=code&state=RANDOM_STRING&redirect_uri='' @ REDIRECT_URI env
                @ ''&duration=permanent&scope=identity history read save'')]
         \<and> (wait_for_code env 0 (begin_auth env w1) = Some (code, w2) \<longrightarrow>
              (\<exists>r w'. get_tokens env w = Some (r, w')
                 \<and> opened (trace w') = opened (trace w) @ [authorization_url env]))
         \<and> (CLIENT_ID env' = CLIENT_ID env \<and> REDIRECT_URI env' = REDIRECT_URI env \<longrightarrow>
              authorization_url env' = authorization_url env)"
proof (intro conjI impI)
  show "trace (begin_auth env w1) =
           trace w1
           @ [StartThread, Print MsgWaiting, Print MsgOpening,
              OpenBrowser (''https://www.reddit.com/api/v1/authorize?client_id='' @ CLIENT_ID env
                @ ''&response_type=code&state=RANDOM_STRING&redirect_uri='' @ REDIRECT_URI env
                @ ''&duration=permanent&scope=identity history read save'')]"
    by (simp add: begin_auth_trace authorization_url_def)
next
  assume wait: "wait_for_code env 0 (begin_auth env w1) = Some (code, w2)"
  from get_tokens_run [OF assms wait]
  have "get_tokens env w = Some (token_exchange env code w2)"
    and "opened (trace (snd (token_exchange env code w2))) = opened (trace w) @ [authorization_url env]"
    by simp_all
  then show "\<exists>r w'. get_tokens env w = Some (r, w')
                 \<and> opened (trace w') = opened (trace w) @ [authorization_url env]"
    by (cases "token_exchange env code w2") auto
next
  assume "CLIENT_ID env' = CLIENT_ID env \<and> REDIRECT_URI env' = REDIRECT_URI env"
  then show "authorization_url env' = authorization_url env"
    by (simp add: authorization_url_def)
qed

text \<open>
  \<open>configured_env\<close>, and the same configuration with no request reaching the listener.
\<close>

theorem state_parameter_constant_witness:
  "load_existing_tokens fresh_world = (Inr False, fresh_world)
   \<and> trace (begin_auth configured_env fresh_world) =
       [StartThread, Print MsgWaiting, Print MsgOpening,
        OpenBrowser ''https://www.reddit.com/api/v1/authorize?client_id=my_id&response_type=code&state=RANDOM_STRING&redirect_uri=http://localhost:8080&duration=permanent&scope=identity history read save'']
   \<and> wait_for_code configured_env 0 (begin_auth configured_env fresh_world)
       = Some (''abc123'', after_grant configured_env)
   \<and> (\<exists>r w'. get_tokens configured_env fresh_world = Some (r, w')
         \<and> opened (trace w') = [authorization_url configured_env])
   \<and> CLIENT_ID (configured_env\<lparr>inbound := None\<rparr>) = CLIENT_ID configured_env
   \<and> REDIRECT_URI (configured_env\<lparr>inbound := None\<rparr>) = REDIRECT_URI configured_env
   \<and> authorization_url (configured_env\<lparr>inbound := None\<rparr>) = authorization_url configured_env"
proof -
  have run: "wait_for_code configured_env 0 (begin_auth configured_env fresh_world)
      = Some (''abc123'', after_grant configured_env)"
    by (rule granted_run) simp
  show ?thesis
    using state_parameter_constant [OF fresh_world_load, of configured_env "''abc123''"
        "after_grant configured_env" "configured_env\<lparr>inbound := None\<rparr>"]
    by (simp add: fresh_world_load run configured_constants)
       (simp add: fresh_world_def)
qed

end
